theory Spec2Isabelle
  imports Main "HOL-Library.Word" "HOL-Library.AList"
begin

unbundle bit_operations_syntax

section \<open>MTP responder over LittleFS: the handle table and its handlers\<close>

text \<open>
  A shallow embedding of \<^verbatim>\<open>main/src/monolith/usb_mtp_impl.c.h\<close>. The C globals
  (\<^verbatim>\<open>handle_table\<close>, \<^verbatim>\<open>current_file\<close>, \<^verbatim>\<open>current_handle\<close>, \<^verbatim>\<open>current_file_size\<close>,
  \<^verbatim>\<open>is_session_opened\<close>, \<^verbatim>\<open>handle_self_inc\<close>) are the fields of one state record that
  every handler takes and returns. \<^verbatim>\<open>uint32_t\<close>, \<^verbatim>\<open>fs_handle_t\<close> and the 32-bit
  \<^verbatim>\<open>size_t\<close> of the ESP32-S3 are \<open>32 word\<close>. A C string is the list of its characters up
  to the terminating NUL, so \<^verbatim>\<open>name[0] == '\0'\<close> is \<open>name e = []\<close>.
\<close>

subsection \<open>Machine types and constants\<close>

type_synonym u8 = "8 word"
type_synonym u16 = "16 word"
type_synonym u32 = "32 word"
type_synonym fs_handle_t = u32

definition MTP_FILENAME_LENGTH :: nat where
  "MTP_FILENAME_LENGTH = 63"

definition MTP_HANDLE_TABLE_SIZE :: nat where
  "MTP_HANDLE_TABLE_SIZE = 32"

definition FS_INVALID_HANDLE :: fs_handle_t where
  "FS_INVALID_HANDLE = 0xFFFFFFFF"

definition SUPPORTED_STORAGE_ID :: u32 where
  "SUPPORTED_STORAGE_ID = 0x00010001"

text \<open>
  \<^verbatim>\<open>sizeof(mtp_container_header_t)\<close>: the TinyUSB generic container header (length
  \<^verbatim>\<open>uint32_t\<close>, type \<^verbatim>\<open>uint16_t\<close>, code \<^verbatim>\<open>uint16_t\<close>, transaction id
  \<^verbatim>\<open>uint32_t\<close>). The header file belongs to TinyUSB, not to this repository.
\<close>

definition mtp_container_header_size :: u32 where
  "mtp_container_header_size = 12"

text \<open>
  The association types of the MTP object-info dataset (TinyUSB's \<^verbatim>\<open>mtp.h\<close>, values of the
  MTP standard).
\<close>

definition MTP_ASSOCIATION_UNDEFINED :: u16 where
  "MTP_ASSOCIATION_UNDEFINED = 0"

definition MTP_ASSOCIATION_GENERIC_FOLDER :: u16 where
  "MTP_ASSOCIATION_GENERIC_FOLDER = 1"

text \<open>
  The response codes the handlers return. The numeric values live in TinyUSB's \<^verbatim>\<open>mtp.h\<close>;
  the handlers only return them, and the dispatcher only compares the returned
  \<^verbatim>\<open>int32_t\<close> with \<^verbatim>\<open>MTP_RESP_UNDEFINED\<close>, below which lie the two other values a handler
  returns: \<^verbatim>\<open>0\<close> (the handler has queued a data phase itself) and \<^verbatim>\<open>-1\<close>.
\<close>

datatype mtp_resp =
    MTP_RESP_OK
  | MTP_RESP_GENERAL_ERROR
  | MTP_RESP_SESSION_NOT_OPEN
  | MTP_RESP_OPERATION_NOT_SUPPORTED
  | MTP_RESP_PARAMETER_NOT_SUPPORTED
  | MTP_RESP_INVALID_STORAGE_ID
  | MTP_RESP_INVALID_OBJECT_HANDLE
  | MTP_RESP_STORE_FULL
  | MTP_RESP_INVALID_PARENT_OBJECT
  | MTP_RESP_INVALID_PARAMETER
  | MTP_RESP_SESSION_ALREADY_OPEN

datatype retval =
    Ret_0
  | Ret_minus_1
  | Ret_resp mtp_resp

datatype mtp_phase = MTP_PHASE_COMMAND | MTP_PHASE_DATA

datatype mtp_op = MTP_OP_OPEN_SESSION | MTP_OP_CLOSE_SESSION

text \<open>
  What a C function does besides returning. \<open>Undefined\<close> is undefined behaviour of the C
  program: a null pointer is dereferenced (a panic on the ESP32-S3), an array is indexed
  outside its bounds, or a \<^verbatim>\<open>char[63]\<close> name that holds no terminator is read as a C
  string (the read runs on into whatever lies behind the array). \<open>Diverges\<close> is a loop
  that never ends.
\<close>

datatype 'a outcome = Returns 'a | Undefined | Diverges

subsection \<open>The handle table\<close>

text \<open>
  \<open>name\<close> is the content of \<^verbatim>\<open>char name[MTP_FILENAME_LENGTH]\<close> up to its first NUL, or all
  63 characters when the array holds none; only a name shorter than 63 characters is a
  terminated C string.
\<close>

record fs_handletable_entry_t =
  handle :: fs_handle_t
  parent_handle :: fs_handle_t
  is_dir :: bool
  name :: string

record fs_handletable =
  handles :: "fs_handletable_entry_t list"
  handles_used :: u32

text \<open>A static C object starts out as all-zero bytes.\<close>

definition zero_entry :: fs_handletable_entry_t where
  "zero_entry = \<lparr>handle = 0, parent_handle = 0, is_dir = False, name = []\<rparr>"

definition zero_table :: fs_handletable where
  "zero_table = \<lparr>handles = replicate MTP_HANDLE_TABLE_SIZE zero_entry, handles_used = 0\<rparr>"

text \<open>\<^verbatim>\<open>return ++handle_self_inc;\<close> on a \<^verbatim>\<open>uint32_t\<close>: the result and the new counter.\<close>

definition fs_assign_new_handle :: "fs_handle_t \<Rightarrow> fs_handle_t \<times> fs_handle_t" where
  "fs_assign_new_handle handle_self_inc = (handle_self_inc + 1, handle_self_inc + 1)"

text \<open>The first slot whose \<^verbatim>\<open>handle\<close> field matches, live or not; \<open>None\<close> is \<^verbatim>\<open>nullptr\<close>.\<close>

definition fs_get_handle_entry :: "fs_handletable \<Rightarrow> fs_handle_t \<Rightarrow> fs_handletable_entry_t option" where
  "fs_get_handle_entry ht h = find (\<lambda>e. handle e = h) (handles ht)"

text \<open>The index of the first slot with an empty name; \<open>None\<close> is \<^verbatim>\<open>FS_INVALID_HANDLE\<close>.\<close>

fun find_index_from :: "('a \<Rightarrow> bool) \<Rightarrow> 'a list \<Rightarrow> nat \<Rightarrow> nat option" where
  "find_index_from P [] i = None"
| "find_index_from P (x # xs) i = (if P x then Some i else find_index_from P xs (Suc i))"

definition fs_handletable_find_empty_entry :: "fs_handletable \<Rightarrow> nat option" where
  "fs_handletable_find_empty_entry ht = find_index_from (\<lambda>e. name e = []) (handles ht) 0"

definition live :: "fs_handletable_entry_t \<Rightarrow> bool" where
  "live e \<longleftrightarrow> name e \<noteq> []"

definition fs_handle_valid :: "fs_handletable \<Rightarrow> fs_handle_t \<Rightarrow> bool" where
  "fs_handle_valid ht h \<longleftrightarrow> list_ex (\<lambda>e. handle e = h \<and> name e \<noteq> []) (handles ht)"

text \<open>
  \<^verbatim>\<open>strlcpy\<close> and \<^verbatim>\<open>strlcat\<close> into a buffer of \<open>n\<close> bytes keep at most \<open>n - 1\<close> characters;
  \<^verbatim>\<open>strncpy(dst, src, n)\<close> copies at most \<open>n\<close> characters and writes no terminator when
  \<open>src\<close> has \<open>n\<close> or more: the destination array is then full, and reading it as a C
  string is \<open>Undefined\<close> (\<open>read_name\<close> below).
\<close>

definition strlcpy :: "string \<Rightarrow> nat \<Rightarrow> string" where
  "strlcpy src n = take (n - 1) src"

definition strlcat :: "string \<Rightarrow> string \<Rightarrow> nat \<Rightarrow> string" where
  "strlcat dst src n = (if length dst < n then take (n - 1) (dst @ src) else dst)"

definition strncpy :: "string \<Rightarrow> nat \<Rightarrow> string" where
  "strncpy src n = take n src"

text \<open>
  Reading an entry's name as a C string, as \<^verbatim>\<open>strlcat(path_out, entry->name, buf_len)\<close>
  does: a name that fills the array has no terminator.
\<close>

definition read_name :: "fs_handletable_entry_t \<Rightarrow> string outcome" where
  "read_name e = (if MTP_FILENAME_LENGTH \<le> length (name e) then Undefined else Returns (name e))"

text \<open>
  \<^verbatim>\<open>fs_path_from_handle\<close>: \<open>Returns None\<close> is \<^verbatim>\<open>return false\<close>. The parent entry is looked
  up and dereferenced without a null check.
\<close>

definition fs_path_from_handle :: "fs_handletable \<Rightarrow> fs_handle_t \<Rightarrow> nat \<Rightarrow> string option outcome" where
  "fs_path_from_handle ht h buf_len =
     (if \<not> fs_handle_valid ht h then Returns None
      else case fs_get_handle_entry ht h of
        None \<Rightarrow> Undefined
      | Some entry \<Rightarrow>
          let path0 = strlcpy ''/littlefs/'' buf_len in
          if parent_handle entry \<noteq> 0 then
            (case fs_get_handle_entry ht (parent_handle entry) of
               None \<Rightarrow> Undefined
             | Some parent_entry \<Rightarrow>
                 (case read_name parent_entry of
                    Undefined \<Rightarrow> Undefined
                  | Diverges \<Rightarrow> Diverges
                  | Returns parent_name \<Rightarrow>
                      let path1 = strlcat path0 parent_name buf_len;
                          path2 = strlcat path1 ''/'' buf_len
                      in (case read_name entry of
                            Undefined \<Rightarrow> Undefined
                          | Diverges \<Rightarrow> Diverges
                          | Returns entry_name \<Rightarrow>
                              Returns (Some (strlcat path2 entry_name buf_len)))))
          else
            (case read_name entry of
               Undefined \<Rightarrow> Undefined
             | Diverges \<Rightarrow> Diverges
             | Returns entry_name \<Rightarrow> Returns (Some (strlcat path0 entry_name buf_len))))"

text \<open>\<^verbatim>\<open>fs_path_create\<close>: \<open>Returns None\<close> is \<^verbatim>\<open>-ENOENT\<close>; here the parent entry is checked.\<close>

definition fs_path_create ::
  "fs_handletable \<Rightarrow> fs_handle_t \<Rightarrow> string \<Rightarrow> nat \<Rightarrow> string option outcome" where
  "fs_path_create ht parent nm buf_len =
     (if parent \<noteq> 0 then
        (case fs_get_handle_entry ht parent of
           None \<Rightarrow> Returns None
         | Some parent_entry \<Rightarrow>
             (case read_name parent_entry of
                Undefined \<Rightarrow> Undefined
              | Diverges \<Rightarrow> Diverges
              | Returns parent_name \<Rightarrow>
                  let path0 = strlcpy ''/littlefs/'' buf_len;
                      path1 = strlcat path0 parent_name buf_len;
                      path2 = strlcat path1 ''/'' buf_len
                  in Returns (Some (strlcat path2 nm buf_len))))
      else Returns (Some (strlcat (strlcpy ''/littlefs/'' buf_len) nm buf_len)))"

text \<open>
  \<^verbatim>\<open>fs_delete_handle\<close>: the first live slot with this handle loses its name and the
  counter goes down by one; \<open>None\<close> is \<^verbatim>\<open>-ENOENT\<close>.
\<close>

fun clear_first :: "fs_handle_t \<Rightarrow> fs_handletable_entry_t list \<Rightarrow> fs_handletable_entry_t list option" where
  "clear_first h [] = None"
| "clear_first h (e # es) =
     (if handle e = h \<and> name e \<noteq> [] then Some (e\<lparr>name := []\<rparr> # es)
      else map_option ((#) e) (clear_first h es))"

definition fs_delete_handle :: "fs_handletable \<Rightarrow> fs_handle_t \<Rightarrow> fs_handletable option" where
  "fs_delete_handle ht h =
     (case clear_first h (handles ht) of
        None \<Rightarrow> None
      | Some es \<Rightarrow> Some (ht\<lparr>handles := es, handles_used := handles_used ht - 1\<rparr>))"

subsection \<open>The filesystem and the open stream\<close>

text \<open>
  LittleFS behind the ESP-IDF VFS is an external collaborator: the handlers only call
  \<^verbatim>\<open>opendir\<close>, \<^verbatim>\<open>readdir\<close>, \<^verbatim>\<open>stat\<close>, \<^verbatim>\<open>fopen\<close>, \<^verbatim>\<open>fread\<close>, \<^verbatim>\<open>unlink\<close>, \<^verbatim>\<open>mkdir\<close> and
  \<^verbatim>\<open>esp_littlefs_info\<close>. It is modelled as the list of its objects by absolute path, in
  the order \<^verbatim>\<open>readdir\<close> reports them; the mount point \<^verbatim>\<open>/littlefs\<close> is itself a
  directory of that list. \<open>used_bytes\<close> is what \<^verbatim>\<open>esp_littlefs_info\<close> reports; the modelled
  operations do not recompute it.
\<close>

datatype fs_obj = RegFile "u8 list" | Directory

record filesystem =
  objects :: "(string \<times> fs_obj) list"
  capacity_bytes :: u32
  used_bytes :: u32

record dirent =
  d_name :: string
  d_is_dir :: bool

definition fs_dirname :: "string \<Rightarrow> string" where
  "fs_dirname p = rev (tl (dropWhile (\<lambda>c. c \<noteq> CHR ''/'') (rev p)))"

definition fs_basename :: "string \<Rightarrow> string" where
  "fs_basename p = rev (takeWhile (\<lambda>c. c \<noteq> CHR ''/'') (rev p))"

definition fs_stat :: "filesystem \<Rightarrow> string \<Rightarrow> fs_obj option" where
  "fs_stat fs p = map_of (objects fs) p"

definition fs_readdir :: "filesystem \<Rightarrow> string \<Rightarrow> dirent list" where
  "fs_readdir fs p =
     List.map_filter
       (\<lambda>(q, ob). if fs_dirname q = p \<and> fs_basename q \<noteq> []
                  then Some \<lparr>d_name = fs_basename q, d_is_dir = (ob = Directory)\<rparr> else None)
       (objects fs)"

definition fs_opendir :: "filesystem \<Rightarrow> string \<Rightarrow> dirent list option" where
  "fs_opendir fs p = (if fs_stat fs p = Some Directory then Some (fs_readdir fs p) else None)"

definition fs_creatable :: "filesystem \<Rightarrow> string \<Rightarrow> bool" where
  "fs_creatable fs p \<longleftrightarrow> fs_basename p \<noteq> [] \<and> fs_stat fs (fs_dirname p) = Some Directory"

text \<open>\<^verbatim>\<open>fopen(path, "w")\<close>: the new filesystem, or \<open>None\<close> for \<^verbatim>\<open>nullptr\<close>.\<close>

definition fs_fopen_w :: "filesystem \<Rightarrow> string \<Rightarrow> filesystem option" where
  "fs_fopen_w fs p =
     (case fs_stat fs p of
        Some Directory \<Rightarrow> None
      | Some (RegFile _) \<Rightarrow> Some (fs\<lparr>objects := AList.update p (RegFile []) (objects fs)\<rparr>)
      | None \<Rightarrow> if fs_creatable fs p
                then Some (fs\<lparr>objects := objects fs @ [(p, RegFile [])]\<rparr>) else None)"

definition fs_unlink :: "filesystem \<Rightarrow> string \<Rightarrow> filesystem" where
  "fs_unlink fs p =
     (case fs_stat fs p of
        Some (RegFile _) \<Rightarrow> fs\<lparr>objects := AList.delete p (objects fs)\<rparr>
      | _ \<Rightarrow> fs)"

definition fs_mkdir :: "filesystem \<Rightarrow> string \<Rightarrow> filesystem" where
  "fs_mkdir fs p =
     (if fs_stat fs p = None \<and> fs_creatable fs p
      then fs\<lparr>objects := objects fs @ [(p, Directory)]\<rparr> else fs)"

text \<open>An open \<^verbatim>\<open>FILE *\<close>: the path it was opened on, the mode and the position.\<close>

record FILE =
  f_path :: string
  f_mode :: string
  f_pos :: nat

definition file_content :: "filesystem \<Rightarrow> FILE \<Rightarrow> u8 list" where
  "file_content fs f = (case fs_stat fs (f_path f) of Some (RegFile bs) \<Rightarrow> bs | _ \<Rightarrow> [])"

subsection \<open>The responder state\<close>

record storage_info_t =
  max_capacity_in_bytes :: "64 word"
  free_space_in_bytes :: "64 word"
  free_space_in_objects :: u32

record mtp_state =
  handle_table :: fs_handletable
  current_file :: "FILE option"
  current_handle :: fs_handle_t
  current_file_size :: u32
  is_session_opened :: bool
  handle_self_inc :: fs_handle_t
  storage_info :: storage_info_t
  littlefs :: filesystem

definition boot_state :: "filesystem \<Rightarrow> mtp_state" where
  "boot_state fs =
     \<lparr>handle_table = zero_table, current_file = None, current_handle = FS_INVALID_HANDLE,
      current_file_size = 0, is_session_opened = False, handle_self_inc = 0,
      storage_info = \<lparr>max_capacity_in_bytes = 0, free_space_in_bytes = 0, free_space_in_objects = 0\<rparr>,
      littlefs = fs\<rparr>"

subsection \<open>Rebuilding the table at session open\<close>

text \<open>
  \<^verbatim>\<open>fs_handletable_regenerate\<close>. The loop variable \<^verbatim>\<open>int ii\<close> receives each new handle and
  is used both as the slot index and as the handle; \<^verbatim>\<open>ii >= MTP_HANDLE_TABLE_SIZE\<close> is a
  signed comparison, and a write to \<^verbatim>\<open>handles[ii]\<close> outside \<open>0..31\<close> is \<open>Undefined\<close>. The
  loop state is the slots, \<^verbatim>\<open>ii\<close> and \<^verbatim>\<open>handle_self_inc\<close>; \<open>Goto_cleanup\<close> is the
  \<^verbatim>\<open>goto cleanup\<close> on a full table.
\<close>

datatype 'a loop_exit = Goto_cleanup 'a | Loop_done 'a

type_synonym regen_state = "fs_handletable_entry_t list \<times> u32 \<times> fs_handle_t"

fun regenerate_subdir :: "dirent list \<Rightarrow> u32 \<Rightarrow> regen_state \<Rightarrow> regen_state loop_exit outcome" where
  "regenerate_subdir [] parent st = Returns (Loop_done st)"
| "regenerate_subdir (subdiritem # rest) parent (hs, ii, inc) =
     (if \<not> unat ii < MTP_HANDLE_TABLE_SIZE then Undefined
      else
        let hs1 = hs[unat ii := (hs ! unat ii)
                       \<lparr>name := strncpy (d_name subdiritem) MTP_FILENAME_LENGTH,
                        parent_handle := parent,
                        is_dir := d_is_dir subdiritem\<rparr>];
            ii1 = fst (fs_assign_new_handle inc);
            inc1 = snd (fs_assign_new_handle inc)
        in if word_sle 32 ii1 then Returns (Goto_cleanup (hs1, ii1, inc1))
           else regenerate_subdir rest parent (hs1, ii1, inc1))"

fun regenerate_root :: "filesystem \<Rightarrow> dirent list \<Rightarrow> regen_state \<Rightarrow> regen_state outcome" where
  "regenerate_root fs [] st = Returns st"
| "regenerate_root fs (rootitem # rest) (hs, ii, inc) =
     (if \<not> unat ii < MTP_HANDLE_TABLE_SIZE then Undefined
      else
        let hs1 = hs[unat ii := (hs ! unat ii)
                       \<lparr>name := strncpy (d_name rootitem) MTP_FILENAME_LENGTH,
                        parent_handle := 0,
                        handle := ii\<rparr>];
            ii1 = fst (fs_assign_new_handle inc);
            inc1 = snd (fs_assign_new_handle inc)
        in if word_sle 32 ii1 then Returns (hs1, ii1, inc1)
           else if d_is_dir rootitem then
             (if \<not> unat ii1 < MTP_HANDLE_TABLE_SIZE then Undefined
              else
                let parent = ii1;
                    hs2 = hs1[unat parent := (hs1 ! unat parent)\<lparr>is_dir := True\<rparr>]
                in if 200 \<le> length (''/littlefs/'' @ d_name rootitem) then Undefined
                   else case fs_opendir fs (''/littlefs/'' @ d_name rootitem) of
                     None \<Rightarrow> regenerate_root fs rest (hs2, ii1, inc1)
                   | Some subdir \<Rightarrow>
                       (case regenerate_subdir subdir parent (hs2, ii1, inc1) of
                          Undefined \<Rightarrow> Undefined
                        | Diverges \<Rightarrow> Diverges
                        | Returns (Goto_cleanup st) \<Rightarrow> Returns st
                        | Returns (Loop_done st) \<Rightarrow> regenerate_root fs rest st))
           else regenerate_root fs rest (hs1, ii1, inc1))"

definition fs_handletable_regenerate ::
  "filesystem \<Rightarrow> fs_handletable \<Rightarrow> fs_handle_t \<Rightarrow> (fs_handletable \<times> fs_handle_t) outcome" where
  "fs_handletable_regenerate fs ht inc =
     (let ii = fst (fs_assign_new_handle inc);
          inc0 = snd (fs_assign_new_handle inc)
      in case fs_opendir fs ''/littlefs'' of
           None \<Rightarrow> Returns (ht, inc0)
         | Some root \<Rightarrow>
             (case regenerate_root fs root (handles ht, ii, inc0) of
                Undefined \<Rightarrow> Undefined
              | Diverges \<Rightarrow> Diverges
              | Returns (hs, ii', inc') \<Rightarrow> Returns (ht\<lparr>handles := hs, handles_used := ii'\<rparr>, inc')))"

subsection \<open>Session open and close\<close>

definition fs_open_close_session :: "mtp_op \<Rightarrow> mtp_state \<Rightarrow> (retval \<times> mtp_state) outcome" where
  "fs_open_close_session opc s =
     (if opc = MTP_OP_OPEN_SESSION then
        (if is_session_opened s then Returns (Ret_resp MTP_RESP_SESSION_ALREADY_OPEN, s)
         else
           let s1 = s\<lparr>is_session_opened := True\<rparr> in
           case fs_handletable_regenerate (littlefs s1) (handle_table s1) (handle_self_inc s1) of
             Undefined \<Rightarrow> Undefined
           | Diverges \<Rightarrow> Diverges
           | Returns (ht, inc) \<Rightarrow>
               Returns (Ret_resp MTP_RESP_OK, s1\<lparr>handle_table := ht, handle_self_inc := inc\<rparr>))
      else
        (if \<not> is_session_opened s then Returns (Ret_resp MTP_RESP_SESSION_NOT_OPEN, s)
         else Returns (Ret_resp MTP_RESP_OK, s\<lparr>is_session_opened := False, handle_self_inc := 0\<rparr>)))"

subsection \<open>Streams, file creation and deletion\<close>

text \<open>
  \<^verbatim>\<open>fopen\<close>: mode \<^verbatim>\<open>"r"\<close> opens an existing regular file, any other mode is taken as
  \<^verbatim>\<open>"w"\<close>; the first component is \<open>None\<close> for \<^verbatim>\<open>nullptr\<close>.
\<close>

definition fs_fopen :: "filesystem \<Rightarrow> string \<Rightarrow> string \<Rightarrow> FILE option \<times> filesystem" where
  "fs_fopen fs p mode =
     (if take 1 mode = ''r'' then
        (case fs_stat fs p of
           Some (RegFile _) \<Rightarrow> (Some \<lparr>f_path = p, f_mode = mode, f_pos = 0\<rparr>, fs)
         | _ \<Rightarrow> (None, fs))
      else
        (case fs_fopen_w fs p of
           None \<Rightarrow> (None, fs)
         | Some fs' \<Rightarrow> (Some \<lparr>f_path = p, f_mode = mode, f_pos = 0\<rparr>, fs')))"

text \<open>\<^verbatim>\<open>fread(ptr, 1, n, f)\<close>: the bytes read and the advanced stream.\<close>

definition fs_fread :: "filesystem \<Rightarrow> FILE \<Rightarrow> nat \<Rightarrow> u8 list \<times> FILE" where
  "fs_fread fs f n =
     (let bs = take n (drop (f_pos f) (file_content fs f))
      in (bs, f\<lparr>f_pos := f_pos f + length bs\<rparr>))"

text \<open>
  \<^verbatim>\<open>fs_stat_handle\<close>: \<open>Returns None\<close> is a nonzero return value (\<^verbatim>\<open>-EINVAL\<close> or the failure
  of \<^verbatim>\<open>stat\<close>); otherwise what \<^verbatim>\<open>stat\<close> found and the table entry.
\<close>

definition fs_stat_handle ::
  "filesystem \<Rightarrow> fs_handletable \<Rightarrow> fs_handle_t \<Rightarrow> (fs_obj \<times> fs_handletable_entry_t) option outcome" where
  "fs_stat_handle fs ht h =
     (case fs_path_from_handle ht h 200 of
        Undefined \<Rightarrow> Undefined
      | Diverges \<Rightarrow> Diverges
      | Returns None \<Rightarrow> Returns None
      | Returns (Some path_buf) \<Rightarrow>
          (case fs_get_handle_entry ht h of
             None \<Rightarrow> Undefined
           | Some entry \<Rightarrow>
               (case fs_stat fs path_buf of
                  None \<Rightarrow> Returns None
                | Some ob \<Rightarrow> Returns (Some (ob, entry)))))"

text \<open>
  \<^verbatim>\<open>fs_open_handle\<close>: in read mode the size is taken with \<^verbatim>\<open>fseek\<close>/\<^verbatim>\<open>ftell\<close> on the
  result of \<^verbatim>\<open>fopen\<close> without a null check.
\<close>

definition fs_open_handle :: "mtp_state \<Rightarrow> fs_handle_t \<Rightarrow> string \<Rightarrow> (FILE option \<times> mtp_state) outcome" where
  "fs_open_handle s h mode =
     (if current_file s \<noteq> None \<and> current_handle s = h then Returns (current_file s, s)
      else case fs_path_from_handle (handle_table s) h 200 of
        Undefined \<Rightarrow> Undefined
      | Diverges \<Rightarrow> Diverges
      | Returns None \<Rightarrow> Returns (None, s)
      | Returns (Some path_buf) \<Rightarrow>
          let opened = fs_fopen (littlefs s) path_buf mode;
              s1 = s\<lparr>current_handle := h, current_file := fst opened, littlefs := snd opened\<rparr>
          in if take 1 mode = ''r'' then
               (case current_file s1 of
                  None \<Rightarrow> Undefined
                | Some f \<Rightarrow>
                    Returns (Some (f\<lparr>f_pos := 0\<rparr>),
                             s1\<lparr>current_file := Some (f\<lparr>f_pos := 0\<rparr>),
                                current_file_size := of_nat (length (file_content (littlefs s1) f))\<rparr>))
             else Returns (current_file s1, s1))"

definition fs_can_create_file :: "fs_handletable \<Rightarrow> filesystem \<Rightarrow> u32 \<Rightarrow> bool" where
  "fs_can_create_file ht fs sz =
     (if handles_used ht = of_nat MTP_HANDLE_TABLE_SIZE then False
      else if capacity_bytes fs - used_bytes fs < sz then False
      else True)"

text \<open>
  \<^verbatim>\<open>fs_create_file\<close>: the returned handle and the new state. The handle is taken from the
  counter before \<^verbatim>\<open>fopen\<close> is tried; the entry's \<^verbatim>\<open>is_dir\<close> is left as the slot had it.
\<close>

definition fs_create_file ::
  "mtp_state \<Rightarrow> fs_handle_t \<Rightarrow> string \<Rightarrow> (fs_handle_t \<times> mtp_state) outcome" where
  "fs_create_file s parent nm =
     (case fs_path_create (handle_table s) parent nm 200 of
        Undefined \<Rightarrow> Undefined
      | Diverges \<Rightarrow> Diverges
      | Returns None \<Rightarrow> Returns (FS_INVALID_HANDLE, s)
      | Returns (Some pathbuf) \<Rightarrow>
          (case fs_handletable_find_empty_entry (handle_table s) of
             None \<Rightarrow> Returns (FS_INVALID_HANDLE, s)
           | Some handle_slot \<Rightarrow>
               let h = fst (fs_assign_new_handle (handle_self_inc s));
                   s1 = s\<lparr>handle_self_inc := snd (fs_assign_new_handle (handle_self_inc s))\<rparr>;
                   opened = fs_fopen (littlefs s1) pathbuf ''w''
               in (case fst opened of
                    None \<Rightarrow> Returns (FS_INVALID_HANDLE, s1\<lparr>current_file := None\<rparr>)
                  | Some f \<Rightarrow>
                      let ht = handle_table s1;
                          entry = (handles ht ! handle_slot)
                                    \<lparr>parent_handle := parent, handle := h,
                                     name := strlcpy nm MTP_FILENAME_LENGTH\<rparr>
                      in Returns
                           (h, s1\<lparr>current_file := Some f,
                                  littlefs := snd opened,
                                  current_handle := h,
                                  handle_table :=
                                    ht\<lparr>handles := (handles ht)[handle_slot := entry],
                                       handles_used := handles_used ht + 1\<rparr>\<rparr>))))"

text \<open>\<^verbatim>\<open>fs_close_handle\<close>; \<^verbatim>\<open>fclose\<close> of a null stream is \<open>Undefined\<close>.\<close>

definition fs_close_handle :: "mtp_state \<Rightarrow> fs_handle_t \<Rightarrow> FILE option \<Rightarrow> mtp_state outcome" where
  "fs_close_handle s h file =
     (if current_file s \<noteq> file \<or> current_handle s \<noteq> h then Returns s
      else case file of
        None \<Rightarrow> Undefined
      | Some _ \<Rightarrow> Returns (s\<lparr>current_handle := FS_INVALID_HANDLE, current_file := None\<rparr>))"

subsection \<open>The operation handlers\<close>

text \<open>
  A handler returns its \<^verbatim>\<open>int32_t\<close>, what it handed to the transport
  (\<^verbatim>\<open>tud_mtp_data_send\<close>, \<^verbatim>\<open>tud_mtp_data_receive\<close>) and the new state.
\<close>

text \<open>
  \<open>Data_Send_First bs n\<close> is the command phase of \<^verbatim>\<open>fs_get_object\<close>:
  \<^verbatim>\<open>mtp_container_add_raw(io_container, first_time_buffer, current_file_size)\<close> and then
  \<^verbatim>\<open>tud_mtp_data_send\<close>. \<open>bs\<close> are the bytes \<^verbatim>\<open>fread\<close> stored at the start of
  \<^verbatim>\<open>first_time_buffer\<close> (the rest of that stack buffer is uninitialised) and \<open>n\<close> is the
  byte count handed to TinyUSB: the file size, whatever \<^verbatim>\<open>fread\<close> returned.
\<close>

datatype io_effect =
    Data_Send_Storage_Info storage_info_t
  | Data_Send_Handles "u32 list"
  | Data_Send_First "u8 list" u32
  | Data_Send_Bytes "u8 list"
  | Data_Receive

type_synonym handler_result = "(retval \<times> io_effect list \<times> mtp_state) outcome"

text \<open>
  The dispatcher (\<^verbatim>\<open>tud_mtp_command_received_cb\<close>, \<^verbatim>\<open>tud_mtp_data_xfer_cb\<close>) sends a
  response only for a return value above \<^verbatim>\<open>MTP_RESP_UNDEFINED\<close>.
\<close>

definition response_sent :: "retval \<Rightarrow> mtp_resp option" where
  "response_sent r = (case r of Ret_resp code \<Rightarrow> Some code | _ \<Rightarrow> None)"

definition fs_get_storage_info :: "u32 \<Rightarrow> mtp_state \<Rightarrow> handler_result" where
  "fs_get_storage_info storage_id s =
     (if SUPPORTED_STORAGE_ID \<noteq> storage_id then Returns (Ret_minus_1, [], s)
      else
        let fs = littlefs s;
            si = (storage_info s)
                   \<lparr>max_capacity_in_bytes := ucast (capacity_bytes fs),
                    free_space_in_objects :=
                      of_nat MTP_HANDLE_TABLE_SIZE - handles_used (handle_table s),
                    free_space_in_bytes := ucast (capacity_bytes fs - used_bytes fs)\<rparr>
        in Returns (Ret_0, [Data_Send_Storage_Info si], s\<lparr>storage_info := si\<rparr>))"

definition fs_get_object_handles :: "u32 \<Rightarrow> u32 \<Rightarrow> mtp_state \<Rightarrow> handler_result" where
  "fs_get_object_handles storage_id parent s =
     (if storage_id \<noteq> 0xFFFFFFFF \<and> storage_id \<noteq> SUPPORTED_STORAGE_ID
      then Returns (Ret_resp MTP_RESP_INVALID_STORAGE_ID, [], s)
      else
        let h = (if parent = 0xFFFFFFFF then 0 else parent);
            found = map handle
                      (filter (\<lambda>e. parent_handle e = h \<and> name e \<noteq> [])
                         (handles (handle_table s)))
        in Returns (Ret_0, [Data_Send_Handles found], s))"

text \<open>
  The read loop of the data phase of \<^verbatim>\<open>fs_get_object\<close>: it repeats \<^verbatim>\<open>fread\<close> until
  \<^verbatim>\<open>remaining_len\<close> is zero, so it does not end when the stream has nothing left to give.
\<close>

partial_function (option) read_loop ::
  "filesystem \<Rightarrow> FILE \<Rightarrow> u32 \<Rightarrow> u8 list \<Rightarrow> (u8 list \<times> FILE) option" where
  "read_loop fs f remaining_len buf =
     (if remaining_len = 0 then Some (buf, f)
      else
        let rd = fs_fread fs f (unat remaining_len)
        in read_loop fs (snd rd) (remaining_len - of_nat (length (fst rd))) (buf @ fst rd))"

text \<open>
  \<^verbatim>\<open>fs_get_object\<close>. \<open>bufsize\<close> is \<^verbatim>\<open>CFG_TUD_MTP_EP_BUFSIZE\<close>, \<open>payload_bytes\<close> the
  capacity of the reply payload (\<^verbatim>\<open>io_container->payload_bytes\<close>), read in the data phase.
\<close>

definition fs_get_object ::
  "fs_handle_t \<Rightarrow> mtp_phase \<Rightarrow> u32 \<Rightarrow> u32 \<Rightarrow> nat \<Rightarrow> mtp_state \<Rightarrow> handler_result" where
  "fs_get_object obj_handle phase total_xferred_bytes payload_bytes bufsize s =
     (case fs_open_handle s obj_handle ''r'' of
        Undefined \<Rightarrow> Undefined
      | Diverges \<Rightarrow> Diverges
      | Returns (None, s1) \<Rightarrow> Returns (Ret_resp MTP_RESP_INVALID_OBJECT_HANDLE, [], s1)
      | Returns (Some _, s1) \<Rightarrow>
          (case phase of
             MTP_PHASE_COMMAND \<Rightarrow>
               (case current_file s1 of
                  None \<Rightarrow> Undefined
                | Some f \<Rightarrow>
                    let rd = fs_fread (littlefs s1) f (min bufsize (unat (current_file_size s1)))
                    in Returns (Ret_0,
                                [Data_Send_First (fst rd) (current_file_size s1)],
                                s1\<lparr>current_file := Some (snd rd)\<rparr>))
           | MTP_PHASE_DATA \<Rightarrow>
               let offset = total_xferred_bytes - mtp_container_header_size;
                   xact_len = min (current_file_size s1 - offset) payload_bytes
               in (case (if xact_len > 0 then
                          (case current_file s1 of
                             None \<Rightarrow> Undefined
                           | Some f \<Rightarrow>
                               (case read_loop (littlefs s1) (f\<lparr>f_pos := unat offset\<rparr>) xact_len [] of
                                  None \<Rightarrow> Diverges
                                | Some (buf, f') \<Rightarrow>
                                    Returns ([Data_Send_Bytes buf], s1\<lparr>current_file := Some f'\<rparr>)))
                        else Returns ([], s1)) of
                    Undefined \<Rightarrow> Undefined
                  | Diverges \<Rightarrow> Diverges
                  | Returns (io, s2) \<Rightarrow>
                      if offset + xact_len \<ge> current_file_size s2 then
                        (case fs_close_handle s2 obj_handle (current_file s2) of
                           Undefined \<Rightarrow> Undefined
                         | Diverges \<Rightarrow> Diverges
                         | Returns s3 \<Rightarrow> Returns (Ret_0, io, s3))
                      else Returns (Ret_0, io, s2))))"

text \<open>
  The object-info dataset of \<^verbatim>\<open>SendObjectInfo\<close> as the handler reads it. The file name
  arrives as UTF-16 and goes through the external \<^verbatim>\<open>utf16_to_utf8\<close>; \<open>oi_filename\<close> is
  its UTF-8 result, of which the converter stores at most the capacity it is given
  (\<^verbatim>\<open>MTP_FILENAME_LENGTH\<close> for a file, the 89 bytes left in \<^verbatim>\<open>dir_path\<close> for a folder).
\<close>

record obj_info =
  oi_storage_id :: u32
  oi_parent_object :: u32
  oi_association_type :: u16
  oi_object_compressed_size :: u32
  oi_filename :: string

text \<open>The parent check of the data phase: \<open>Returns False\<close> is the invalid-parent exit.\<close>

definition parent_is_directory :: "mtp_state \<Rightarrow> fs_handle_t \<Rightarrow> bool outcome" where
  "parent_is_directory s parent =
     (if parent \<noteq> 0 then
        (case fs_stat_handle (littlefs s) (handle_table s) parent of
           Undefined \<Rightarrow> Undefined
         | Diverges \<Rightarrow> Diverges
         | Returns None \<Rightarrow> Returns False
         | Returns (Some (ob, entry)) \<Rightarrow> Returns (ob = Directory))
      else Returns True)"

definition fs_send_object_info :: "u32 \<Rightarrow> mtp_phase \<Rightarrow> obj_info \<Rightarrow> mtp_state \<Rightarrow> handler_result" where
  "fs_send_object_info storage_id phase oi s =
     (if \<not> is_session_opened s then Returns (Ret_resp MTP_RESP_SESSION_NOT_OPEN, [], s)
      else if storage_id \<noteq> 0xFFFFFFFF \<and> storage_id \<noteq> SUPPORTED_STORAGE_ID
      then Returns (Ret_resp MTP_RESP_INVALID_STORAGE_ID, [], s)
      else (case phase of
        MTP_PHASE_COMMAND \<Rightarrow> Returns (Ret_0, [Data_Receive], s)
      | MTP_PHASE_DATA \<Rightarrow>
          if oi_storage_id oi \<noteq> 0 \<and> oi_storage_id oi \<noteq> SUPPORTED_STORAGE_ID
          then Returns (Ret_resp MTP_RESP_INVALID_STORAGE_ID, [], s)
          else
            let parent = (if oi_parent_object oi = 0xFFFFFFFF then 0 else oi_parent_object oi)
            in (case parent_is_directory s parent of
                 Undefined \<Rightarrow> Undefined
               | Diverges \<Rightarrow> Diverges
               | Returns False \<Rightarrow> Returns (Ret_resp MTP_RESP_INVALID_PARENT_OBJECT, [], s)
               | Returns True \<Rightarrow>
                   if oi_association_type oi = MTP_ASSOCIATION_UNDEFINED then
                     (if \<not> fs_can_create_file (handle_table s) (littlefs s)
                              (oi_object_compressed_size oi)
                      then Returns (Ret_resp MTP_RESP_STORE_FULL, [], s)
                      else
                        (case fs_create_file s parent
                                (take MTP_FILENAME_LENGTH (oi_filename oi)) of
                           Undefined \<Rightarrow> Undefined
                         | Diverges \<Rightarrow> Diverges
                         | Returns (_, s1) \<Rightarrow>
                             Returns (Ret_0, [],
                                      s1\<lparr>current_file_size := oi_object_compressed_size oi\<rparr>)))
                   else if oi_association_type oi = MTP_ASSOCIATION_GENERIC_FOLDER then
                     (if parent \<noteq> 0
                      then Returns (Ret_resp MTP_RESP_INVALID_PARENT_OBJECT, [], s)
                      else
                        let dir_path = ''/littlefs/'' @ take 89 (oi_filename oi)
                        in Returns (Ret_0, [], s\<lparr>littlefs := fs_mkdir (littlefs s) dir_path\<rparr>))
                   else Returns (Ret_resp MTP_RESP_INVALID_PARAMETER, [], s))))"

definition fs_delete_object :: "fs_handle_t \<Rightarrow> mtp_state \<Rightarrow> handler_result" where
  "fs_delete_object obj_handle s =
     (if \<not> is_session_opened s then Returns (Ret_resp MTP_RESP_SESSION_NOT_OPEN, [], s)
      else case fs_path_from_handle (handle_table s) obj_handle 200 of
        Undefined \<Rightarrow> Undefined
      | Diverges \<Rightarrow> Diverges
      | Returns None \<Rightarrow> Returns (Ret_resp MTP_RESP_INVALID_OBJECT_HANDLE, [], s)
      | Returns (Some pathbuf) \<Rightarrow>
          (case fs_stat_handle (littlefs s) (handle_table s) obj_handle of
             Undefined \<Rightarrow> Undefined
           | Diverges \<Rightarrow> Diverges
           | Returns None \<Rightarrow> Returns (Ret_resp MTP_RESP_GENERAL_ERROR, [], s)
           | Returns (Some (ob, entry)) \<Rightarrow>
               if ob = Directory
               then Returns (Ret_resp MTP_RESP_OPERATION_NOT_SUPPORTED, [], s)
               else
                 let fs' = fs_unlink (littlefs s) pathbuf;
                     ht' = (case fs_delete_handle (handle_table s) obj_handle of
                              None \<Rightarrow> handle_table s
                            | Some t \<Rightarrow> t)
                 in Returns (Ret_resp MTP_RESP_OK, [], s\<lparr>littlefs := fs', handle_table := ht'\<rparr>)))"

declare read_loop.simps [code]

subsection \<open>Handle allocation over a session\<close>

text \<open>
  The two things that happen to the allocator and the table inside one open session:
  \<^verbatim>\<open>fs_assign_new_handle\<close> (from the table rebuild and from \<^verbatim>\<open>fs_create_file\<close>) and
  \<^verbatim>\<open>fs_delete_handle\<close>. \<open>session_handles\<close> lists the handles the allocations return.
\<close>

datatype alloc_op = Allocate | Delete fs_handle_t

fun session_handles :: "alloc_op list \<Rightarrow> fs_handletable \<Rightarrow> fs_handle_t \<Rightarrow> fs_handle_t list" where
  "session_handles [] ht inc = []"
| "session_handles (Allocate # ops) ht inc =
     fst (fs_assign_new_handle inc) # session_handles ops ht (snd (fs_assign_new_handle inc))"
| "session_handles (Delete h # ops) ht inc =
     session_handles ops (case fs_delete_handle ht h of None \<Rightarrow> ht | Some ht' \<Rightarrow> ht') inc"

definition allocations :: "alloc_op list \<Rightarrow> nat" where
  "allocations ops = length (filter (\<lambda>x. x = Allocate) ops)"

subsection \<open>Requests\<close>

text \<open>
  The operations of \<^verbatim>\<open>fs_op_handler_dict\<close> that are modelled, with the parameters each
  handler reads from the command container, and the dispatch to the handlers.
  \<^verbatim>\<open>CFG_TUD_MTP_EP_BUFSIZE\<close> comes from the TinyUSB configuration; the source speaks of a
  512-byte MTP packet.
\<close>

definition CFG_TUD_MTP_EP_BUFSIZE :: nat where
  "CFG_TUD_MTP_EP_BUFSIZE = 512"

datatype request =
    Open_Session
  | Close_Session
  | Get_Storage_Info u32
  | Get_Object_Handles u32 u32
  | Get_Object fs_handle_t mtp_phase u32 u32
  | Send_Object_Info u32 mtp_phase obj_info
  | Delete_Object fs_handle_t

fun handle_request :: "request \<Rightarrow> mtp_state \<Rightarrow> handler_result" where
  "handle_request Open_Session s =
     (case fs_open_close_session MTP_OP_OPEN_SESSION s of
        Undefined \<Rightarrow> Undefined | Diverges \<Rightarrow> Diverges
      | Returns (r, s') \<Rightarrow> Returns (r, [], s'))"
| "handle_request Close_Session s =
     (case fs_open_close_session MTP_OP_CLOSE_SESSION s of
        Undefined \<Rightarrow> Undefined | Diverges \<Rightarrow> Diverges
      | Returns (r, s') \<Rightarrow> Returns (r, [], s'))"
| "handle_request (Get_Storage_Info storage_id) s = fs_get_storage_info storage_id s"
| "handle_request (Get_Object_Handles storage_id parent) s =
     fs_get_object_handles storage_id parent s"
| "handle_request (Get_Object h phase total_xferred_bytes payload_bytes) s =
     fs_get_object h phase total_xferred_bytes payload_bytes CFG_TUD_MTP_EP_BUFSIZE s"
| "handle_request (Send_Object_Info storage_id phase oi) s =
     fs_send_object_info storage_id phase oi s"
| "handle_request (Delete_Object h) s = fs_delete_object h s"

fun run_requests :: "request list \<Rightarrow> mtp_state \<Rightarrow> mtp_state outcome" where
  "run_requests [] s = Returns s"
| "run_requests (r # rs) s =
     (case handle_request r s of
        Undefined \<Rightarrow> Undefined
      | Diverges \<Rightarrow> Diverges
      | Returns (_, _, s') \<Rightarrow> run_requests rs s')"

text \<open>The state a freshly booted device is in after a list of requests.\<close>

definition state_after :: "request list \<Rightarrow> filesystem \<Rightarrow> mtp_state" where
  "state_after rs fs = (case run_requests rs (boot_state fs) of Returns s \<Rightarrow> s | _ \<Rightarrow> boot_state fs)"

definition live_count :: "fs_handletable \<Rightarrow> nat" where
  "live_count ht = length (filter live (handles ht))"

text \<open>Example filesystems: empty, one file, one file-holding directory.\<close>

definition fs_empty :: filesystem where
  "fs_empty = \<lparr>objects = [(''/littlefs'', Directory)], capacity_bytes = 4096, used_bytes = 0\<rparr>"

definition fs_one_file :: filesystem where
  "fs_one_file =
     \<lparr>objects = [(''/littlefs'', Directory), (''/littlefs/a'', RegFile [1, 2, 3])],
      capacity_bytes = 4096, used_bytes = 3\<rparr>"

definition fs_one_dir :: filesystem where
  "fs_one_dir =
     \<lparr>objects = [(''/littlefs'', Directory), (''/littlefs/d'', Directory),
                 (''/littlefs/d/f'', RegFile [1, 2, 3])],
      capacity_bytes = 4096, used_bytes = 3\<rparr>"

text \<open>
  An upper bound on the number of path segments below the storage root: one more than
  the separators after \<^verbatim>\<open>/littlefs/\<close>.
\<close>

definition segments_below_root :: "string \<Rightarrow> nat" where
  "segments_below_root p = Suc (count_list (drop (length ''/littlefs/'') p) CHR ''/'')"

text \<open>Example object-info datasets: a five-byte file \<^verbatim>\<open>g\<close> under handle 1.\<close>

definition oi_g_in_d :: obj_info where
  "oi_g_in_d = \<lparr>oi_storage_id = SUPPORTED_STORAGE_ID, oi_parent_object = 1,
                 oi_association_type = MTP_ASSOCIATION_UNDEFINED,
                 oi_object_compressed_size = 5, oi_filename = ''g''\<rparr>"

text \<open>
  More example inputs: a filesystem with a file and a directory at the root, and the
  requests that create a five-byte plain file of a given name at the root and a folder
  \<^verbatim>\<open>sub\<close> under a given parent.
\<close>

definition fs_dir_and_file :: filesystem where
  "fs_dir_and_file =
     \<lparr>objects = [(''/littlefs'', Directory), (''/littlefs/a'', RegFile [1, 2, 3]),
                 (''/littlefs/d'', Directory)],
      capacity_bytes = 4096, used_bytes = 3\<rparr>"

definition fs_only_dir :: filesystem where
  "fs_only_dir =
     \<lparr>objects = [(''/littlefs'', Directory), (''/littlefs/d'', Directory)],
      capacity_bytes = 4096, used_bytes = 0\<rparr>"

definition oi_plain :: "string \<Rightarrow> obj_info" where
  "oi_plain nm = \<lparr>oi_storage_id = SUPPORTED_STORAGE_ID, oi_parent_object = 0xFFFFFFFF,
                  oi_association_type = MTP_ASSOCIATION_UNDEFINED,
                  oi_object_compressed_size = 5, oi_filename = nm\<rparr>"

definition create_file :: "string \<Rightarrow> request" where
  "create_file nm = Send_Object_Info SUPPORTED_STORAGE_ID MTP_PHASE_DATA (oi_plain nm)"

definition oi_folder_under :: "u32 \<Rightarrow> obj_info" where
  "oi_folder_under parent =
     \<lparr>oi_storage_id = SUPPORTED_STORAGE_ID, oi_parent_object = parent,
      oi_association_type = MTP_ASSOCIATION_GENERIC_FOLDER,
      oi_object_compressed_size = 0, oi_filename = ''sub''\<rparr>"

text \<open>
  Three request sequences on a freshly booted device. \<open>fill_table\<close> (on the empty
  filesystem): 31 files are created (handles 2 to 32, slots 0 to 30), the 16 files with
  handles 3 to 18 are deleted, the session is closed and reopened (the rebuild rewrites
  slots 1 to 15) and two more files are created (slots 16 and 31). \<open>dangling_parent\<close> (on
  a filesystem holding the empty directory \<^verbatim>\<open>d\<close>): \<^verbatim>\<open>x\<close> is created at the root and \<^verbatim>\<open>g\<close>
  under \<^verbatim>\<open>d\<close> (handle 1), and the session is closed and reopened. \<open>same_name_twice\<close> (on
  the empty filesystem): \<^verbatim>\<open>a\<close> is sent twice (handles 2 and 3) and handle 2 is deleted.
\<close>

definition fill_table :: "request list" where
  "fill_table =
     [Open_Session]
     @ map (\<lambda>c. create_file [c]) ''abcdefghijklmnopqrstuvwxyzABCDE''
     @ map (\<lambda>h. Delete_Object (of_nat h)) [3..<19]
     @ [Close_Session, Open_Session, create_file ''new1'', create_file ''new2'']"

definition dangling_parent :: "request list" where
  "dangling_parent =
     [Open_Session, create_file ''x'',
      Send_Object_Info SUPPORTED_STORAGE_ID MTP_PHASE_DATA oi_g_in_d,
      Close_Session, Open_Session]"

definition same_name_twice :: "request list" where
  "same_name_twice = [Open_Session, create_file ''a'', create_file ''a'', Delete_Object 2]"

text \<open>A filesystem with one 600-byte file, larger than one transfer buffer.\<close>

definition fs_big_file :: filesystem where
  "fs_big_file =
     \<lparr>objects = [(''/littlefs'', Directory), (''/littlefs/big'', RegFile (replicate 600 0x55))],
      capacity_bytes = 4096, used_bytes = 600\<rparr>"

text \<open>A five-byte file \<^verbatim>\<open>b\<close> to create at the root.\<close>

definition oi_file_b :: obj_info where
  "oi_file_b = \<lparr>oi_storage_id = SUPPORTED_STORAGE_ID, oi_parent_object = 0xFFFFFFFF,
                 oi_association_type = MTP_ASSOCIATION_UNDEFINED,
                 oi_object_compressed_size = 5, oi_filename = ''b''\<rparr>"

section \<open>Properties\<close>

subsection \<open>The allocator\<close>

lemma session_handles_eq:
  "session_handles ops ht inc = map (\<lambda>k. inc + of_nat k) [1..<Suc (allocations ops)]"
proof (induction ops ht inc rule: session_handles.induct)
  case (1 ht inc)
  then show ?case by (simp add: allocations_def)
next
  case (2 ops ht inc)
  have "map (\<lambda>k. inc + of_nat k) [1..<Suc (Suc (allocations ops))]
        = (inc + 1) # map (\<lambda>k. inc + of_nat k) [Suc 1..<Suc (Suc (allocations ops))]"
    by (simp add: upt_rec)
  also have "map (\<lambda>k. inc + of_nat k) [Suc 1..<Suc (Suc (allocations ops))]
        = map (\<lambda>k. inc + 1 + of_nat k) [1..<Suc (allocations ops)]"
    by (simp add: map_Suc_upt [symmetric] del: upt_Suc add: add.assoc)
  finally show ?case using 2 by (simp add: fs_assign_new_handle_def allocations_def)
next
  case (3 h ops ht inc)
  then show ?case by (simp add: allocations_def)
qed

lemma unat_counter:
  fixes inc :: u32
  assumes "unat inc + k < 2 ^ 32"
  shows "unat (inc + of_nat k) = unat inc + k"
  using assms by (simp add: unat_word_ariths unat_of_nat)

text \<open>
  Claim C3, as amended. Inside one session, whatever deletions come in between, as long
  as the 32-bit counter does not wrap (the counter value at the start plus the number of
  allocations stays below \<open>2^32\<close>), the handles \<^verbatim>\<open>fs_assign_new_handle\<close> returns are
  strictly increasing, none is 0 and none is returned twice.
\<close>

theorem C3_handles_increase_until_wrap:
  assumes "unat inc + allocations ops < 2 ^ 32"
  shows "sorted_wrt (<) (session_handles ops ht inc)
         \<and> 0 \<notin> set (session_handles ops ht inc)
         \<and> distinct (session_handles ops ht inc)"
proof -
  let ?n = "allocations ops"
  let ?f = "\<lambda>k. inc + (of_nat k :: u32)"
  have val: "unat (?f k) = unat inc + k" if "k \<le> ?n" for k
    using that assms by (intro unat_counter) simp
  have mono: "?f j < ?f k" if "j < k" "k \<le> ?n" for j k
    using that val [of j] val [of k] by (simp add: word_less_nat_alt)
  have "sorted_wrt (\<lambda>j k. ?f j < ?f k) [1..<Suc ?n]"
  proof (rule sorted_wrt_mono_rel [where P = "(<)"])
    show "sorted_wrt (<) [1..<Suc ?n]" by (rule sorted_wrt_upt)
  next
    fix j k assume "j \<in> set [1..<Suc ?n]" "k \<in> set [1..<Suc ?n]" "j < k"
    then show "?f j < ?f k" by (intro mono) (simp_all del: upt_Suc)
  qed
  then have inc_sorted: "sorted_wrt (<) (session_handles ops ht inc)"
    by (simp only: session_handles_eq sorted_wrt_map)
  have nz: "?f k \<noteq> 0" if "1 \<le> k" "k \<le> ?n" for k
  proof
    assume "?f k = 0"
    then have "unat (?f k) = 0" by simp
    with val [OF that(2)] that(1) show False by simp
  qed
  have "0 \<notin> set (session_handles ops ht inc)"
    unfolding session_handles_eq using nz by auto
  moreover have "distinct (session_handles ops ht inc)"
    using inc_sorted by (simp add: strict_sorted_iff)
  ultimately show ?thesis using inc_sorted by simp
qed

theorem C3_handles_increase_witness:
  "unat (0 :: u32) + allocations [Allocate, Delete 1, Allocate] < 2 ^ 32
   \<and> sorted_wrt (<) (session_handles [Allocate, Delete 1, Allocate] zero_table 0)
   \<and> 0 \<notin> set (session_handles [Allocate, Delete 1, Allocate] zero_table 0)
   \<and> distinct (session_handles [Allocate, Delete 1, Allocate] zero_table 0)"
  using C3_handles_increase_until_wrap [of 0 "[Allocate, Delete 1, Allocate]" zero_table]
  by (simp add: allocations_def)

text \<open>
  Claim C3 as stated fails for a session long enough to wrap the \<^verbatim>\<open>uint32_t\<close> counter:
  the \<open>2^32\<close>-th allocation since the counter was reset returns 0.
\<close>

theorem C3_counter_wraps_to_zero:
  "\<not> (sorted_wrt (<) (session_handles (replicate (2 ^ 32) Allocate) zero_table 0)
      \<and> 0 \<notin> set (session_handles (replicate (2 ^ 32) Allocate) zero_table 0)
      \<and> distinct (session_handles (replicate (2 ^ 32) Allocate) zero_table 0))"
proof -
  have "allocations (replicate (2 ^ 32) Allocate) = 2 ^ 32"
    by (simp add: allocations_def)
  then have "session_handles (replicate (2 ^ 32) Allocate) zero_table 0
             = map (\<lambda>k. of_nat k) [1..<Suc (2 ^ 32)]"
    by (simp add: session_handles_eq)
  moreover have "(of_nat (2 ^ 32) :: u32) = 0" by simp
  moreover have "(2 ^ 32 :: nat) \<in> set [1..<Suc (2 ^ 32)]" by simp
  ultimately have "0 \<in> set (session_handles (replicate (2 ^ 32) Allocate) zero_table 0)"
    by (metis (no_types, lifting) imageI set_map)
  then show ?thesis by simp
qed

subsection \<open>The table after a session open\<close>

text \<open>
  Claim C2 (every live entry with a nonzero parent refers to a live directory entry of
  the table) on the code: a device boots on a filesystem holding the directory \<^verbatim>\<open>d\<close> with
  the file \<^verbatim>\<open>f\<close> in it and the session is opened. The entry of \<^verbatim>\<open>d\<close> (slot 1, handle 1) does
  not carry the directory flag; the entry of \<^verbatim>\<open>f\<close> (slot 2) is live, names parent 2, and no
  slot of the table carries handle 2.
\<close>

theorem C2_subdirectory_entry_without_parent:
  "run_requests [Open_Session] (boot_state fs_one_dir)
     = Returns (state_after [Open_Session] fs_one_dir)
   \<and> handles (handle_table (state_after [Open_Session] fs_one_dir)) ! 1
       = \<lparr>handle = 1, parent_handle = 0, is_dir = False, name = ''d''\<rparr>
   \<and> handles (handle_table (state_after [Open_Session] fs_one_dir)) ! 2
       = \<lparr>handle = 0, parent_handle = 2, is_dir = False, name = ''f''\<rparr>
   \<and> fs_get_handle_entry (handle_table (state_after [Open_Session] fs_one_dir)) 2 = None"
  by code_simp

subsection \<open>GetStorageInfo\<close>

text \<open>
  Claim C6 (a wrong storage id is answered with InvalidStorageID, otherwise the free
  object count is 32 minus the number of live entries) on the code: after a session is
  opened on an empty filesystem the table has no live entry and the reply carries 31 free
  objects; for another storage id the handler returns \<^verbatim>\<open>-1\<close>, for which the dispatcher
  sends no response.
\<close>

theorem C6_free_objects_after_open:
  "run_requests [Open_Session] (boot_state fs_empty)
     = Returns (state_after [Open_Session] fs_empty)
   \<and> live_count (handle_table (state_after [Open_Session] fs_empty)) = 0
   \<and> fs_get_storage_info SUPPORTED_STORAGE_ID (state_after [Open_Session] fs_empty)
       = Returns (Ret_0,
           [Data_Send_Storage_Info
              \<lparr>max_capacity_in_bytes = 4096, free_space_in_bytes = 4096,
               free_space_in_objects = 31\<rparr>],
           (state_after [Open_Session] fs_empty)
             \<lparr>storage_info :=
                \<lparr>max_capacity_in_bytes = 4096, free_space_in_bytes = 4096,
                 free_space_in_objects = 31\<rparr>\<rparr>)
   \<and> fs_get_storage_info 0x00020001 (state_after [Open_Session] fs_empty)
       = Returns (Ret_minus_1, [], state_after [Open_Session] fs_empty)
   \<and> response_sent Ret_minus_1 = None"
  by code_simp

subsection \<open>GetObjectHandles\<close>

text \<open>
  Claim C10, as amended. For every parent parameter (\<^verbatim>\<open>0xFFFFFFFF\<close> standing for root 0)
  and every storage id that is the supported one or the all-storages sentinel,
  \<^verbatim>\<open>fs_get_object_handles\<close> succeeds in every state, session open or not, and sends the
  handles of exactly the live entries whose \<^verbatim>\<open>parent_handle\<close> is that value; the result is
  empty exactly when no live entry carries that parent value. Whether the parent is itself
  a live handle is never looked at.
\<close>

theorem C10_object_handles_unchecked:
  assumes "storage_id = 0xFFFFFFFF \<or> storage_id = SUPPORTED_STORAGE_ID"
  shows "\<exists>found.
           fs_get_object_handles storage_id parent s = Returns (Ret_0, [Data_Send_Handles found], s)
         \<and> set found = handle ` {e \<in> set (handles (handle_table s)).
                                   live e \<and> parent_handle e = (if parent = 0xFFFFFFFF then 0 else parent)}
         \<and> (found = [] \<longleftrightarrow>
              \<not> list_ex (\<lambda>e. live e \<and> parent_handle e = (if parent = 0xFFFFFFFF then 0 else parent))
                   (handles (handle_table s)))"
  using assms
  by (auto simp add: fs_get_object_handles_def live_def Let_def filter_empty_conv list_ex_iff)

theorem C10_object_handles_witness:
  "(SUPPORTED_STORAGE_ID = 0xFFFFFFFF \<or> SUPPORTED_STORAGE_ID = SUPPORTED_STORAGE_ID)
   \<and> \<not> is_session_opened (state_after [Open_Session, Close_Session] fs_one_file)
   \<and> \<not> fs_handle_valid (handle_table (state_after [Open_Session, Close_Session] fs_one_file)) 7
   \<and> fs_get_object_handles SUPPORTED_STORAGE_ID 7
         (state_after [Open_Session, Close_Session] fs_one_file)
       = Returns (Ret_0, [Data_Send_Handles []],
                  state_after [Open_Session, Close_Session] fs_one_file)"
proof -
  let ?s = "state_after [Open_Session, Close_Session] fs_one_file"
  have dead: "\<not> list_ex (\<lambda>e. live e \<and> parent_handle e = (if (7::u32) = 0xFFFFFFFF then 0 else 7))
                (handles (handle_table ?s))"
    by code_simp
  have closed: "\<not> is_session_opened ?s"
    by code_simp
  have invalid: "\<not> fs_handle_valid (handle_table ?s) 7"
    by code_simp
  from C10_object_handles_unchecked [of SUPPORTED_STORAGE_ID 7 ?s] dead
  have "fs_get_object_handles SUPPORTED_STORAGE_ID 7 ?s
       = Returns (Ret_0, [Data_Send_Handles []], ?s)"
    by auto
  with closed invalid show ?thesis by simp
qed

text \<open>
  Claim C10 as stated fails where it promises an empty result for a parent handle that
  is not live: after a session is opened on the directory \<^verbatim>\<open>d\<close> holding \<^verbatim>\<open>f\<close>, handle 2
  is not live, and asking for its children succeeds with one handle.
\<close>

theorem C10_dead_parent_nonempty_result:
  "run_requests [Open_Session] (boot_state fs_one_dir)
     = Returns (state_after [Open_Session] fs_one_dir)
   \<and> \<not> fs_handle_valid (handle_table (state_after [Open_Session] fs_one_dir)) 2
   \<and> fs_get_object_handles SUPPORTED_STORAGE_ID 2 (state_after [Open_Session] fs_one_dir)
       = Returns (Ret_0, [Data_Send_Handles [0]], state_after [Open_Session] fs_one_dir)"
  by code_simp

subsection \<open>Paths from handles\<close>

lemma strlcpy_root: "strlcpy ''/littlefs/'' 200 = ''/littlefs/''"
  by (simp add: strlcpy_def)

lemma strlcat_fits: "length dst + length src < n \<Longrightarrow> strlcat dst src n = dst @ src"
  by (simp add: strlcat_def)

lemma get_entry_live_valid:
  assumes "fs_get_handle_entry ht h = Some e" "live e"
  shows "fs_handle_valid ht h"
  using assms
  by (auto simp add: fs_get_handle_entry_def fs_handle_valid_def live_def list_ex_iff find_Some_iff)

lemma get_entry_in_table:
  "fs_get_handle_entry ht h = Some e \<Longrightarrow> e \<in> set (handles ht) \<and> handle e = h"
  by (auto simp add: fs_get_handle_entry_def find_Some_iff)

lemma valid_has_entry:
  "fs_handle_valid ht h \<Longrightarrow> \<exists>e. fs_get_handle_entry ht h = Some e"
  by (cases "fs_get_handle_entry ht h")
     (auto simp add: fs_get_handle_entry_def fs_handle_valid_def list_ex_iff find_None_iff)

lemma path_top_level:
  assumes "fs_get_handle_entry ht h = Some e" "live e" "parent_handle e = 0" "length (name e) < 63"
  shows "fs_path_from_handle ht h 200 = Returns (Some (''/littlefs/'' @ name e))"
  using assms get_entry_live_valid [OF assms(1,2)]
  by (simp add: fs_path_from_handle_def read_name_def MTP_FILENAME_LENGTH_def strlcpy_root strlcat_fits)

lemma path_second_level:
  assumes "fs_get_handle_entry ht h = Some e" "live e" "parent_handle e \<noteq> 0"
    "fs_get_handle_entry ht (parent_handle e) = Some pe"
    "length (name e) < 63" "length (name pe) < 63"
  shows "fs_path_from_handle ht h 200 = Returns (Some (''/littlefs/'' @ name pe @ ''/'' @ name e))"
  using assms get_entry_live_valid [OF assms(1,2)]
  by (simp add: fs_path_from_handle_def read_name_def MTP_FILENAME_LENGTH_def strlcpy_root strlcat_fits Let_def)

lemma path_segments:
  assumes "fs_path_from_handle ht h 200 = Returns (Some p)"
    and "list_all (\<lambda>e. CHR ''/'' \<notin> set (name e) \<and> length (name e) < 63) (handles ht)"
  shows "segments_below_root p \<le> 2"
proof -
  from assms(1) have v: "fs_handle_valid ht h"
    by (auto simp add: fs_path_from_handle_def split: if_splits)
  then obtain e where e: "fs_get_handle_entry ht h = Some e" using valid_has_entry by blast
  have ok: "CHR ''/'' \<notin> set (name x) \<and> length (name x) < 63" if "x \<in> set (handles ht)" for x
    using assms(2) that by (simp add: list_all_iff)
  have e_ok: "CHR ''/'' \<notin> set (name e)" "length (name e) < 63"
    using ok get_entry_in_table [OF e] by auto
  show ?thesis
  proof (cases "parent_handle e = 0")
    case True
    with assms(1) v e e_ok have "p = ''/littlefs/'' @ name e"
      by (simp add: fs_path_from_handle_def read_name_def MTP_FILENAME_LENGTH_def strlcpy_root strlcat_fits)
    with e_ok show ?thesis by (simp add: segments_below_root_def count_list_0_iff)
  next
    case False
    with assms(1) v e obtain pe where pe: "fs_get_handle_entry ht (parent_handle e) = Some pe"
      by (cases "fs_get_handle_entry ht (parent_handle e)")
         (auto simp add: fs_path_from_handle_def)
    have pe_ok: "CHR ''/'' \<notin> set (name pe)" "length (name pe) < 63"
      using ok get_entry_in_table [OF pe] by auto
    from False assms(1) v e pe e_ok pe_ok have "p = ''/littlefs/'' @ name pe @ ''/'' @ name e"
      by (simp add: fs_path_from_handle_def read_name_def MTP_FILENAME_LENGTH_def strlcpy_root strlcat_fits Let_def)
    with e_ok pe_ok show ?thesis by (simp add: segments_below_root_def count_list_0_iff)
  qed
qed

text \<open>
  Claim C5, as amended. \<^verbatim>\<open>fs_path_from_handle\<close> fails for a handle that no live entry
  carries; that includes handle 0, for which it has no case of its own. When the first
  slot carrying the handle is live, it returns \<^verbatim>\<open>/littlefs/name\<close> for an entry with parent 0
  and \<^verbatim>\<open>/littlefs/parent.name/name\<close> for an entry whose parent handle is found in the table,
  the names read being terminated C strings (fewer than 63 characters in \<^verbatim>\<open>char[63]\<close>). The
  path is the root followed by at most two table names: at most 2 segments when no name of
  the table contains a separator.
\<close>

theorem C5_path_from_handle:
  "(\<not> fs_handle_valid ht h \<longrightarrow> fs_path_from_handle ht h 200 = Returns None)
   \<and> (fs_get_handle_entry ht h = Some e \<and> live e \<and> parent_handle e = 0 \<and> length (name e) < 63
        \<longrightarrow> fs_path_from_handle ht h 200 = Returns (Some (''/littlefs/'' @ name e)))
   \<and> (fs_get_handle_entry ht h = Some e \<and> live e \<and> parent_handle e \<noteq> 0
        \<and> fs_get_handle_entry ht (parent_handle e) = Some pe
        \<and> length (name e) < 63 \<and> length (name pe) < 63
        \<longrightarrow> fs_path_from_handle ht h 200
              = Returns (Some (''/littlefs/'' @ name pe @ ''/'' @ name e)))
   \<and> (fs_path_from_handle ht h 200 = Returns (Some p)
        \<and> list_all (\<lambda>e. CHR ''/'' \<notin> set (name e) \<and> length (name e) < 63) (handles ht)
        \<longrightarrow> segments_below_root p \<le> 2)"
proof (intro conjI impI)
  assume "\<not> fs_handle_valid ht h"
  then show "fs_path_from_handle ht h 200 = Returns None"
    by (simp add: fs_path_from_handle_def)
next
  assume "fs_get_handle_entry ht h = Some e \<and> live e \<and> parent_handle e = 0 \<and> length (name e) < 63"
  then show "fs_path_from_handle ht h 200 = Returns (Some (''/littlefs/'' @ name e))"
    using path_top_level [of ht h e] by blast
next
  assume "fs_get_handle_entry ht h = Some e \<and> live e \<and> parent_handle e \<noteq> 0
        \<and> fs_get_handle_entry ht (parent_handle e) = Some pe
        \<and> length (name e) < 63 \<and> length (name pe) < 63"
  then show "fs_path_from_handle ht h 200
              = Returns (Some (''/littlefs/'' @ name pe @ ''/'' @ name e))"
    using path_second_level [of ht h e pe] by blast
next
  assume "fs_path_from_handle ht h 200 = Returns (Some p)
        \<and> list_all (\<lambda>e. CHR ''/'' \<notin> set (name e) \<and> length (name e) < 63) (handles ht)"
  then show "segments_below_root p \<le> 2"
    using path_segments [of ht h p] by blast
qed

theorem C5_path_from_handle_witness:
  "\<not> fs_handle_valid
       (handle_table (state_after
          [Open_Session, Send_Object_Info SUPPORTED_STORAGE_ID MTP_PHASE_DATA oi_g_in_d] fs_one_dir)) 9
   \<and> fs_path_from_handle
       (handle_table (state_after
          [Open_Session, Send_Object_Info SUPPORTED_STORAGE_ID MTP_PHASE_DATA oi_g_in_d] fs_one_dir)) 9 200
      = Returns None
   \<and> fs_path_from_handle
       (handle_table (state_after
          [Open_Session, Send_Object_Info SUPPORTED_STORAGE_ID MTP_PHASE_DATA oi_g_in_d] fs_one_dir)) 1 200
      = Returns (Some ''/littlefs/d'')
   \<and> fs_path_from_handle
       (handle_table (state_after
          [Open_Session, Send_Object_Info SUPPORTED_STORAGE_ID MTP_PHASE_DATA oi_g_in_d] fs_one_dir)) 4 200
      = Returns (Some ''/littlefs/d/g'')
   \<and> segments_below_root ''/littlefs/d/g'' \<le> 2"
proof -
  let ?ht = "handle_table (state_after
          [Open_Session, Send_Object_Info SUPPORTED_STORAGE_ID MTP_PHASE_DATA oi_g_in_d] fs_one_dir)"
  let ?d = "\<lparr>handle = 1, parent_handle = 0, is_dir = False, name = ''d''\<rparr>"
  let ?g = "\<lparr>handle = 4, parent_handle = 1, is_dir = False, name = ''g''\<rparr>"
  have dead: "\<not> fs_handle_valid ?ht 9" by code_simp
  have d: "fs_get_handle_entry ?ht 1 = Some ?d" by code_simp
  have g: "fs_get_handle_entry ?ht 4 = Some ?g" by code_simp
  have gp: "fs_get_handle_entry ?ht (parent_handle ?g) = Some ?d" by code_simp
  have names: "list_all (\<lambda>e. CHR ''/'' \<notin> set (name e) \<and> length (name e) < 63) (handles ?ht)"
    by code_simp
  have r1: "fs_path_from_handle ?ht 9 200 = Returns None"
    using C5_path_from_handle [of ?ht 9] dead by blast
  have r2: "fs_path_from_handle ?ht 1 200 = Returns (Some ''/littlefs/d'')"
    using C5_path_from_handle [of ?ht 1 ?d] d by (simp add: live_def)
  have r3: "fs_path_from_handle ?ht 4 200 = Returns (Some ''/littlefs/d/g'')"
    using C5_path_from_handle [of ?ht 4 ?g ?d] g gp by (simp add: live_def)
  have r4: "segments_below_root ''/littlefs/d/g'' \<le> 2"
    using C5_path_from_handle [of ?ht 4 ?g ?d "''/littlefs/d/g''"] r3 names by blast
  from dead r1 r2 r3 r4 show ?thesis by blast
qed

text \<open>
  Claim C5 as stated fails for handle 0: with one file on the filesystem and the session
  open, no live entry carries handle 0 and the lookup fails instead of returning the
  storage root.
\<close>

theorem C5_handle_zero_does_not_resolve:
  "run_requests [Open_Session] (boot_state fs_one_file)
     = Returns (state_after [Open_Session] fs_one_file)
   \<and> fs_path_from_handle (handle_table (state_after [Open_Session] fs_one_file)) 0 200
       = Returns None"
  by code_simp

subsection \<open>SendObjectInfo\<close>

lemma path_from_handle_not_diverges: "fs_path_from_handle ht h n \<noteq> Diverges"
  by (simp add: fs_path_from_handle_def read_name_def Let_def split: option.splits)

lemma stat_handle_not_diverges: "fs_stat_handle fs ht h \<noteq> Diverges"
  using path_from_handle_not_diverges [of ht h 200]
  by (simp add: fs_stat_handle_def split: outcome.splits option.splits)

lemma parent_is_directory_not_diverges: "parent_is_directory s p \<noteq> Diverges"
  using stat_handle_not_diverges [of "littlefs s" "handle_table s" p]
  by (simp add: parent_is_directory_def split: outcome.splits option.splits)

text \<open>
  The capacity check of the data phase: for a plain file that has passed the checks
  before it, a declared size above capacity minus used bytes, or a counter
  \<^verbatim>\<open>handles_used\<close> equal to the table size, gives StoreFull and leaves the state as it was.
\<close>

lemma store_full_leaves_state:
  assumes "is_session_opened s"
    and "storage_id = 0xFFFFFFFF \<or> storage_id = SUPPORTED_STORAGE_ID"
    and "oi_storage_id oi = 0 \<or> oi_storage_id oi = SUPPORTED_STORAGE_ID"
    and "parent_is_directory s (if oi_parent_object oi = 0xFFFFFFFF then 0 else oi_parent_object oi)
           = Returns True"
    and "oi_association_type oi = MTP_ASSOCIATION_UNDEFINED"
    and "capacity_bytes (littlefs s) - used_bytes (littlefs s) < oi_object_compressed_size oi
         \<or> handles_used (handle_table s) = 32"
  shows "fs_send_object_info storage_id MTP_PHASE_DATA oi s
           = Returns (Ret_resp MTP_RESP_STORE_FULL, [], s)"
proof -
  have "\<not> fs_can_create_file (handle_table s) (littlefs s) (oi_object_compressed_size oi)"
    using assms(6) by (auto simp add: fs_can_create_file_def MTP_HANDLE_TABLE_SIZE_def)
  with assms(1-5) show ?thesis
    by (auto simp add: fs_send_object_info_def Let_def)
qed

text \<open>
  Claim C7 (a full handle table is answered with StoreFull) on the code. A freshly booted
  device on an empty filesystem receives \<open>fill_table\<close>; afterwards all 32 slots of the table
  are live, no slot is free, and \<^verbatim>\<open>handles_used\<close> is 18. The next \<^verbatim>\<open>SendObjectInfo\<close> for a
  five-byte plain file passes \<^verbatim>\<open>fs_can_create_file\<close>, \<^verbatim>\<open>fs_create_file\<close> finds no slot, and
  the handler returns 0: no StoreFull, although nothing is created.
\<close>

theorem C7_full_table_answers_zero:
  "run_requests fill_table (boot_state fs_empty) = Returns (state_after fill_table fs_empty)
   \<and> is_session_opened (state_after fill_table fs_empty)
   \<and> live_count (handle_table (state_after fill_table fs_empty)) = 32
   \<and> fs_handletable_find_empty_entry (handle_table (state_after fill_table fs_empty)) = None
   \<and> handles_used (handle_table (state_after fill_table fs_empty)) = 18
   \<and> fs_stat (littlefs (state_after fill_table fs_empty)) ''/littlefs/new3'' = None
   \<and> fs_send_object_info SUPPORTED_STORAGE_ID MTP_PHASE_DATA (oi_plain ''new3'')
         (state_after fill_table fs_empty)
       = Returns (Ret_0, [], (state_after fill_table fs_empty)\<lparr>current_file_size := 5\<rparr>)"
  by code_simp

lemma mkdir_creates:
  assumes "fs_stat fs p = None" "fs_creatable fs p"
  shows "fs_stat (fs_mkdir fs p) p = Some Directory"
  using assms by (simp add: fs_mkdir_def fs_stat_def map_add_def)

text \<open>
  The folder branch of the data phase where the parent lookup returns: a parent other
  than root is answered with InvalidParentObject and the state is unchanged; with parent
  root the handler calls \<^verbatim>\<open>mkdir\<close> on \<^verbatim>\<open>/littlefs/name\<close> and changes nothing but the
  filesystem.
\<close>

lemma folder_creation:
  fixes oi :: obj_info and s :: mtp_state
  defines "parent \<equiv> (if oi_parent_object oi = 0xFFFFFFFF then 0 else oi_parent_object oi)"
    and "dir_path \<equiv> ''/littlefs/'' @ take 89 (oi_filename oi)"
  assumes "is_session_opened s"
    and "storage_id = 0xFFFFFFFF \<or> storage_id = SUPPORTED_STORAGE_ID"
    and "oi_storage_id oi = 0 \<or> oi_storage_id oi = SUPPORTED_STORAGE_ID"
    and "oi_association_type oi = MTP_ASSOCIATION_GENERIC_FOLDER"
  shows "(parent \<noteq> 0 \<and> parent_is_directory s parent \<noteq> Undefined
            \<longrightarrow> fs_send_object_info storage_id MTP_PHASE_DATA oi s
                  = Returns (Ret_resp MTP_RESP_INVALID_PARENT_OBJECT, [], s))
       \<and> (parent = 0
            \<longrightarrow> fs_send_object_info storage_id MTP_PHASE_DATA oi s
                  = Returns (Ret_0, [], s\<lparr>littlefs := fs_mkdir (littlefs s) dir_path\<rparr>))
       \<and> (parent = 0 \<and> fs_stat (littlefs s) dir_path = None \<and> fs_creatable (littlefs s) dir_path
            \<longrightarrow> fs_stat (fs_mkdir (littlefs s) dir_path) dir_path = Some Directory)"
proof (intro conjI impI)
  assume a: "parent \<noteq> 0 \<and> parent_is_directory s parent \<noteq> Undefined"
  then obtain b where b: "parent_is_directory s parent = Returns b"
    using parent_is_directory_not_diverges [of s parent]
    by (cases "parent_is_directory s parent") auto
  have folder: "oi_association_type oi \<noteq> MTP_ASSOCIATION_UNDEFINED"
    using assms(6) by (simp add: MTP_ASSOCIATION_GENERIC_FOLDER_def MTP_ASSOCIATION_UNDEFINED_def)
  show "fs_send_object_info storage_id MTP_PHASE_DATA oi s
          = Returns (Ret_resp MTP_RESP_INVALID_PARENT_OBJECT, [], s)"
    using a b folder assms(3-6) unfolding parent_def
    by (cases b) (auto simp add: fs_send_object_info_def Let_def)
next
  assume a: "parent = 0"
  have folder: "oi_association_type oi \<noteq> MTP_ASSOCIATION_UNDEFINED"
    using assms(6) by (simp add: MTP_ASSOCIATION_GENERIC_FOLDER_def MTP_ASSOCIATION_UNDEFINED_def)
  have "parent_is_directory s 0 = Returns True"
    by (simp add: parent_is_directory_def)
  then show "fs_send_object_info storage_id MTP_PHASE_DATA oi s
          = Returns (Ret_0, [], s\<lparr>littlefs := fs_mkdir (littlefs s) dir_path\<rparr>)"
    using a folder assms(3-6) unfolding parent_def dir_path_def
    by (auto simp add: fs_send_object_info_def Let_def split: if_splits)
next
  assume "parent = 0 \<and> fs_stat (littlefs s) dir_path = None \<and> fs_creatable (littlefs s) dir_path"
  then show "fs_stat (fs_mkdir (littlefs s) dir_path) dir_path = Some Directory"
    using mkdir_creates by blast
qed

text \<open>
  Claim C8 (a folder under a parent other than root is answered with
  InvalidParentObject) on the code. A freshly booted device on a filesystem holding the
  empty directory \<^verbatim>\<open>d\<close> receives \<open>dangling_parent\<close>; afterwards the entry of \<^verbatim>\<open>g\<close> (slot 2)
  is live with handle 4 and names parent 2, which no slot carries. A folder request with
  parent 4 reaches \<^verbatim>\<open>fs_path_from_handle\<close> through \<^verbatim>\<open>fs_stat_handle\<close>, which dereferences
  the null parent entry: the handler does not return.
\<close>

theorem C8_folder_under_dangling_parent:
  "run_requests dangling_parent (boot_state fs_only_dir)
     = Returns (state_after dangling_parent fs_only_dir)
   \<and> is_session_opened (state_after dangling_parent fs_only_dir)
   \<and> handles (handle_table (state_after dangling_parent fs_only_dir)) ! 2
       = \<lparr>handle = 4, parent_handle = 2, is_dir = False, name = ''g''\<rparr>
   \<and> fs_handle_valid (handle_table (state_after dangling_parent fs_only_dir)) 4
   \<and> fs_get_handle_entry (handle_table (state_after dangling_parent fs_only_dir)) 2 = None
   \<and> fs_send_object_info SUPPORTED_STORAGE_ID MTP_PHASE_DATA (oi_folder_under 4)
         (state_after dangling_parent fs_only_dir)
       = Undefined"
  by code_simp

subsection \<open>DeleteObject\<close>

lemma clear_first_valid:
  assumes "list_ex (\<lambda>e. handle e = h \<and> name e \<noteq> []) es"
  shows "\<exists>es'. clear_first h es = Some es'
           \<and> Suc (length (filter live es')) = length (filter live es)
           \<and> Suc (length (filter (\<lambda>e. handle e = h \<and> live e) es'))
               = length (filter (\<lambda>e. handle e = h \<and> live e) es)"
  using assms unfolding live_def
proof (induction es)
  case Nil
  then show ?case by simp
next
  case (Cons e es)
  show ?case
  proof (cases "handle e = h \<and> name e \<noteq> []")
    case True
    then show ?thesis by simp
  next
    case False
    with Cons.prems have "list_ex (\<lambda>e. handle e = h \<and> name e \<noteq> []) es" by auto
    from Cons.IH [OF this] obtain es' where
      "clear_first h es = Some es'"
      "Suc (length (filter (\<lambda>e. name e \<noteq> []) es')) = length (filter (\<lambda>e. name e \<noteq> []) es)"
      "Suc (length (filter (\<lambda>e. handle e = h \<and> name e \<noteq> []) es'))
               = length (filter (\<lambda>e. handle e = h \<and> name e \<noteq> []) es)"
      by blast
    with False show ?thesis by auto
  qed
qed

lemma delete_handle_valid:
  assumes "fs_handle_valid ht h"
  shows "\<exists>ht'. fs_delete_handle ht h = Some ht'
           \<and> handles_used ht' = handles_used ht - 1
           \<and> Suc (live_count ht') = live_count ht
           \<and> Suc (length (filter (\<lambda>e. handle e = h \<and> live e) (handles ht')))
               = length (filter (\<lambda>e. handle e = h \<and> live e) (handles ht))"
  using clear_first_valid [of h "handles ht"] assms
  by (auto simp add: fs_delete_handle_def fs_handle_valid_def live_count_def)

lemma unlink_removes:
  assumes "fs_stat fs p = Some (RegFile bs)"
  shows "fs_stat (fs_unlink fs p) p = None"
  using assms by (simp add: fs_unlink_def fs_stat_def delete_conv)

lemma path_some_valid:
  "fs_path_from_handle ht h n = Returns (Some p) \<Longrightarrow> fs_handle_valid ht h"
  by (auto simp add: fs_path_from_handle_def split: if_splits)

text \<open>
  Where the path lookup has no defined result in an open session (a missing parent entry,
  a name without terminator), the handler has none either.
\<close>

lemma delete_object_path_undefined:
  assumes "is_session_opened s" "fs_path_from_handle (handle_table s) h 200 = Undefined"
  shows "fs_delete_object h s = Undefined"
  using assms by (simp add: fs_delete_object_def)

text \<open>
  Claim C9, as amended. \<^verbatim>\<open>DeleteObject\<close> with the session closed is answered with
  SessionNotOpen. In an open session, where \<^verbatim>\<open>fs_path_from_handle\<close> returns: a handle that
  it does not resolve is answered with InvalidObjectHandle; a handle resolving to a path
  that \<^verbatim>\<open>stat\<close> does not find with GeneralError; a handle resolving to a directory with
  OperationNotSupported; in these cases table and filesystem are unchanged. A handle
  resolving to a regular file is answered with OK, the file is gone from the filesystem,
  the first live entry carrying the handle is cleared and \<^verbatim>\<open>handles_used\<close> is one lower.
\<close>

theorem C9_delete_object:
  "(\<not> is_session_opened s
      \<longrightarrow> fs_delete_object h s = Returns (Ret_resp MTP_RESP_SESSION_NOT_OPEN, [], s))
   \<and> (is_session_opened s \<and> fs_path_from_handle (handle_table s) h 200 = Returns None
        \<longrightarrow> fs_delete_object h s = Returns (Ret_resp MTP_RESP_INVALID_OBJECT_HANDLE, [], s))
   \<and> (is_session_opened s \<and> fs_path_from_handle (handle_table s) h 200 = Returns (Some p)
        \<and> fs_stat (littlefs s) p = None
        \<longrightarrow> fs_delete_object h s = Returns (Ret_resp MTP_RESP_GENERAL_ERROR, [], s))
   \<and> (is_session_opened s \<and> fs_path_from_handle (handle_table s) h 200 = Returns (Some p)
        \<and> fs_stat (littlefs s) p = Some Directory
        \<longrightarrow> fs_delete_object h s = Returns (Ret_resp MTP_RESP_OPERATION_NOT_SUPPORTED, [], s))
   \<and> (is_session_opened s \<and> fs_path_from_handle (handle_table s) h 200 = Returns (Some p)
        \<and> fs_stat (littlefs s) p = Some (RegFile bs)
        \<longrightarrow> (\<exists>ht'. fs_delete_handle (handle_table s) h = Some ht'
              \<and> fs_delete_object h s
                  = Returns (Ret_resp MTP_RESP_OK, [],
                             s\<lparr>littlefs := fs_unlink (littlefs s) p, handle_table := ht'\<rparr>)
              \<and> fs_stat (fs_unlink (littlefs s) p) p = None
              \<and> handles_used ht' = handles_used (handle_table s) - 1
              \<and> Suc (live_count ht') = live_count (handle_table s)
              \<and> Suc (length (filter (\<lambda>e. handle e = h \<and> live e) (handles ht')))
                  = length (filter (\<lambda>e. handle e = h \<and> live e) (handles (handle_table s)))))"
proof (intro conjI impI)
  assume "\<not> is_session_opened s"
  then show "fs_delete_object h s = Returns (Ret_resp MTP_RESP_SESSION_NOT_OPEN, [], s)"
    by (simp add: fs_delete_object_def)
next
  assume "is_session_opened s \<and> fs_path_from_handle (handle_table s) h 200 = Returns None"
  then show "fs_delete_object h s = Returns (Ret_resp MTP_RESP_INVALID_OBJECT_HANDLE, [], s)"
    by (simp add: fs_delete_object_def)
next
  assume a: "is_session_opened s \<and> fs_path_from_handle (handle_table s) h 200 = Returns (Some p)
            \<and> fs_stat (littlefs s) p = None"
  then obtain e where "fs_get_handle_entry (handle_table s) h = Some e"
    using path_some_valid valid_has_entry by blast
  with a show "fs_delete_object h s = Returns (Ret_resp MTP_RESP_GENERAL_ERROR, [], s)"
    by (simp add: fs_delete_object_def fs_stat_handle_def)
next
  assume a: "is_session_opened s \<and> fs_path_from_handle (handle_table s) h 200 = Returns (Some p)
            \<and> fs_stat (littlefs s) p = Some Directory"
  then obtain e where "fs_get_handle_entry (handle_table s) h = Some e"
    using path_some_valid valid_has_entry by blast
  with a show "fs_delete_object h s = Returns (Ret_resp MTP_RESP_OPERATION_NOT_SUPPORTED, [], s)"
    by (simp add: fs_delete_object_def fs_stat_handle_def)
next
  assume a: "is_session_opened s \<and> fs_path_from_handle (handle_table s) h 200 = Returns (Some p)
            \<and> fs_stat (littlefs s) p = Some (RegFile bs)"
  then have v: "fs_handle_valid (handle_table s) h" using path_some_valid by blast
  then obtain e where e: "fs_get_handle_entry (handle_table s) h = Some e"
    using valid_has_entry by blast
  from delete_handle_valid [OF v] obtain ht' where ht':
    "fs_delete_handle (handle_table s) h = Some ht'"
    "handles_used ht' = handles_used (handle_table s) - 1"
    "Suc (live_count ht') = live_count (handle_table s)"
    "Suc (length (filter (\<lambda>e. handle e = h \<and> live e) (handles ht')))
       = length (filter (\<lambda>e. handle e = h \<and> live e) (handles (handle_table s)))"
    by blast
  have "fs_delete_object h s
          = Returns (Ret_resp MTP_RESP_OK, [],
                     s\<lparr>littlefs := fs_unlink (littlefs s) p, handle_table := ht'\<rparr>)"
    using a e ht'(1) by (simp add: fs_delete_object_def fs_stat_handle_def)
  moreover have "fs_stat (fs_unlink (littlefs s) p) p = None"
    using a unlink_removes by blast
  ultimately show "\<exists>ht'. fs_delete_handle (handle_table s) h = Some ht'
                  \<and> fs_delete_object h s
                      = Returns (Ret_resp MTP_RESP_OK, [],
                                 s\<lparr>littlefs := fs_unlink (littlefs s) p, handle_table := ht'\<rparr>)
                  \<and> fs_stat (fs_unlink (littlefs s) p) p = None
                  \<and> handles_used ht' = handles_used (handle_table s) - 1
                  \<and> Suc (live_count ht') = live_count (handle_table s)
                  \<and> Suc (length (filter (\<lambda>e. handle e = h \<and> live e) (handles ht')))
                      = length (filter (\<lambda>e. handle e = h \<and> live e) (handles (handle_table s)))"
    using ht' by blast
qed

theorem C9_delete_object_witness:
  "\<not> is_session_opened (boot_state fs_dir_and_file)
   \<and> fs_delete_object 1 (boot_state fs_dir_and_file)
       = Returns (Ret_resp MTP_RESP_SESSION_NOT_OPEN, [], boot_state fs_dir_and_file)
   \<and> is_session_opened (state_after [Open_Session] fs_dir_and_file)
   \<and> fs_delete_object 9 (state_after [Open_Session] fs_dir_and_file)
       = Returns (Ret_resp MTP_RESP_INVALID_OBJECT_HANDLE, [],
                  state_after [Open_Session] fs_dir_and_file)
   \<and> fs_stat (littlefs (state_after same_name_twice fs_empty)) ''/littlefs/a'' = None
   \<and> fs_delete_object 3 (state_after same_name_twice fs_empty)
       = Returns (Ret_resp MTP_RESP_GENERAL_ERROR, [], state_after same_name_twice fs_empty)
   \<and> fs_stat (littlefs (state_after [Open_Session] fs_dir_and_file)) ''/littlefs/d''
       = Some Directory
   \<and> fs_delete_object 2 (state_after [Open_Session] fs_dir_and_file)
       = Returns (Ret_resp MTP_RESP_OPERATION_NOT_SUPPORTED, [],
                  state_after [Open_Session] fs_dir_and_file)
   \<and> fs_stat (littlefs (state_after [Open_Session] fs_dir_and_file)) ''/littlefs/a''
       = Some (RegFile [1, 2, 3])
   \<and> (\<exists>ht'. fs_delete_handle (handle_table (state_after [Open_Session] fs_dir_and_file)) 1
              = Some ht'
          \<and> fs_delete_object 1 (state_after [Open_Session] fs_dir_and_file)
              = Returns (Ret_resp MTP_RESP_OK, [],
                  (state_after [Open_Session] fs_dir_and_file)
                    \<lparr>littlefs := fs_unlink (littlefs (state_after [Open_Session] fs_dir_and_file))
                                   ''/littlefs/a'',
                     handle_table := ht'\<rparr>)
          \<and> fs_stat (fs_unlink (littlefs (state_after [Open_Session] fs_dir_and_file))
                        ''/littlefs/a'') ''/littlefs/a'' = None
          \<and> handles_used ht' = 2
          \<and> live_count ht' = 1)"
proof -
  let ?s = "state_after [Open_Session] fs_dir_and_file"
  let ?t = "state_after same_name_twice fs_empty"
  let ?b = "boot_state fs_dir_and_file"
  have closed: "\<not> is_session_opened ?b" by (simp add: boot_state_def)
  have opened: "is_session_opened ?s" by code_simp
  have opened_t: "is_session_opened ?t" by code_simp
  have p9: "fs_path_from_handle (handle_table ?s) 9 200 = Returns None" by code_simp
  have p2: "fs_path_from_handle (handle_table ?s) 2 200 = Returns (Some ''/littlefs/d'')"
    by code_simp
  have p1: "fs_path_from_handle (handle_table ?s) 1 200 = Returns (Some ''/littlefs/a'')"
    by code_simp
  have p3: "fs_path_from_handle (handle_table ?t) 3 200 = Returns (Some ''/littlefs/a'')"
    by code_simp
  have st3: "fs_stat (littlefs ?t) ''/littlefs/a'' = None" by code_simp
  have st2: "fs_stat (littlefs ?s) ''/littlefs/d'' = Some Directory" by code_simp
  have st1: "fs_stat (littlefs ?s) ''/littlefs/a'' = Some (RegFile [1, 2, 3])" by code_simp
  have used: "handles_used (handle_table ?s) = 3" by code_simp
  have lives: "live_count (handle_table ?s) = 2" by code_simp
  have r0: "fs_delete_object 1 ?b = Returns (Ret_resp MTP_RESP_SESSION_NOT_OPEN, [], ?b)"
    using C9_delete_object [of ?b 1] closed by blast
  have r9: "fs_delete_object 9 ?s = Returns (Ret_resp MTP_RESP_INVALID_OBJECT_HANDLE, [], ?s)"
    using C9_delete_object [of ?s 9] opened p9 by blast
  have r3: "fs_delete_object 3 ?t = Returns (Ret_resp MTP_RESP_GENERAL_ERROR, [], ?t)"
    using C9_delete_object [of ?t 3 "''/littlefs/a''"] opened_t p3 st3 by blast
  have r2: "fs_delete_object 2 ?s = Returns (Ret_resp MTP_RESP_OPERATION_NOT_SUPPORTED, [], ?s)"
    using C9_delete_object [of ?s 2 "''/littlefs/d''"] opened p2 st2 by blast
  from C9_delete_object [of ?s 1 "''/littlefs/a''" "[1, 2, 3]"] opened p1 st1
  obtain ht' where ht':
    "fs_delete_handle (handle_table ?s) 1 = Some ht'"
    "fs_delete_object 1 ?s
       = Returns (Ret_resp MTP_RESP_OK, [],
                  ?s\<lparr>littlefs := fs_unlink (littlefs ?s) ''/littlefs/a'', handle_table := ht'\<rparr>)"
    "fs_stat (fs_unlink (littlefs ?s) ''/littlefs/a'') ''/littlefs/a'' = None"
    "handles_used ht' = handles_used (handle_table ?s) - 1"
    "Suc (live_count ht') = live_count (handle_table ?s)"
    by blast
  from ht'(4) used have u: "handles_used ht' = 2" by simp
  from ht'(5) lives have l: "live_count ht' = 1" by simp
  from closed r0 opened r9 st3 r3 st2 r2 st1 ht'(1-3) u l show ?thesis by blast
qed

text \<open>
  Claim C9 as stated fails in two places. A freshly booted device on an empty filesystem
  receives \<open>same_name_twice\<close>; handle 3 then resolves to \<^verbatim>\<open>/littlefs/a\<close>, which is neither a
  directory nor any more a file, and deleting it is answered with GeneralError: nothing is
  unlinked and the entry stays live. And with the session closed an unresolvable handle is
  answered with SessionNotOpen, not InvalidObjectHandle.
\<close>

theorem C9_delete_answers_general_error:
  "run_requests same_name_twice (boot_state fs_empty)
     = Returns (state_after same_name_twice fs_empty)
   \<and> is_session_opened (state_after same_name_twice fs_empty)
   \<and> fs_path_from_handle (handle_table (state_after same_name_twice fs_empty)) 3 200
       = Returns (Some ''/littlefs/a'')
   \<and> fs_stat (littlefs (state_after same_name_twice fs_empty)) ''/littlefs/a'' = None
   \<and> fs_delete_object 3 (state_after same_name_twice fs_empty)
       = Returns (Ret_resp MTP_RESP_GENERAL_ERROR, [], state_after same_name_twice fs_empty)
   \<and> fs_handle_valid (handle_table (state_after same_name_twice fs_empty)) 3
   \<and> fs_delete_object 9 (boot_state fs_one_file)
       = Returns (Ret_resp MTP_RESP_SESSION_NOT_OPEN, [], boot_state fs_one_file)"
  by code_simp

subsection \<open>GetObject: the data phase\<close>

lemma file_content_pos [simp]: "file_content fs (f\<lparr>f_pos := n\<rparr>) = file_content fs f"
  by (simp add: file_content_def)

text \<open>
  The read loop returns when the stream holds the bytes asked for: one \<^verbatim>\<open>fread\<close> delivers
  them and the next test of \<^verbatim>\<open>remaining_len\<close> ends the loop.
\<close>

lemma read_loop_enough:
  assumes "f_pos f + unat remaining_len \<le> length (file_content fs f)"
  shows "read_loop fs f remaining_len buf
           = Some (buf @ take (unat remaining_len) (drop (f_pos f) (file_content fs f)),
                   if remaining_len = 0 then f else f\<lparr>f_pos := f_pos f + unat remaining_len\<rparr>)"
proof (cases "remaining_len = 0")
  case True
  then show ?thesis by (subst read_loop.simps) simp
next
  case False
  let ?bs = "take (unat remaining_len) (drop (f_pos f) (file_content fs f))"
  have len: "length ?bs = unat remaining_len" using assms by simp
  have rd: "fs_fread fs f (unat remaining_len) = (?bs, f\<lparr>f_pos := f_pos f + unat remaining_len\<rparr>)"
    using len by (simp add: fs_fread_def Let_def)
  have zero: "remaining_len - of_nat (length ?bs) = 0"
    using len by simp
  have "read_loop fs f remaining_len buf
          = read_loop fs (f\<lparr>f_pos := f_pos f + unat remaining_len\<rparr>) 0 (buf @ ?bs)"
    using False rd zero by (subst read_loop.simps) (simp add: Let_def)
  also have "\<dots> = Some (buf @ ?bs, f\<lparr>f_pos := f_pos f + unat remaining_len\<rparr>)"
    by (subst read_loop.simps) simp
  finally show ?thesis using False by simp
qed

lemma get_object_data_open:
  assumes "current_file s = Some f" "current_handle s = h"
  shows "fs_get_object h MTP_PHASE_DATA total_xferred_bytes payload_bytes bufsize s =
     (if min (current_file_size s - (total_xferred_bytes - mtp_container_header_size)) payload_bytes = 0
      then
        (if (total_xferred_bytes - mtp_container_header_size)
              + min (current_file_size s - (total_xferred_bytes - mtp_container_header_size))
                  payload_bytes
            \<ge> current_file_size s
         then Returns (Ret_0, [], s\<lparr>current_handle := FS_INVALID_HANDLE, current_file := None\<rparr>)
         else Returns (Ret_0, [], s))
      else
        (case read_loop (littlefs s)
                (f\<lparr>f_pos := unat (total_xferred_bytes - mtp_container_header_size)\<rparr>)
                (min (current_file_size s - (total_xferred_bytes - mtp_container_header_size))
                   payload_bytes) [] of
           None \<Rightarrow> Diverges
         | Some (buf, f') \<Rightarrow>
             if (total_xferred_bytes - mtp_container_header_size)
                  + min (current_file_size s - (total_xferred_bytes - mtp_container_header_size))
                      payload_bytes
                \<ge> current_file_size s
             then Returns (Ret_0, [Data_Send_Bytes buf],
                           s\<lparr>current_file := Some f', current_handle := FS_INVALID_HANDLE,
                             current_file := None\<rparr>)
             else Returns (Ret_0, [Data_Send_Bytes buf], s\<lparr>current_file := Some f'\<rparr>)))"
proof -
  let ?x = "min (current_file_size s - (total_xferred_bytes - mtp_container_header_size)) payload_bytes"
  have opened: "fs_open_handle s h ''r'' = Returns (Some f, s)"
    using assms(1,2) by (simp add: fs_open_handle_def)
  show ?thesis
  proof (cases "?x = 0")
    case True
    then show ?thesis
      unfolding fs_get_object_def opened Let_def using assms
      by (simp add: fs_close_handle_def del: min_less_iff_conj)
  next
    case False
    then have "0 < ?x" by (simp add: word_neq_0_conv del: min_less_iff_conj)
    with False show ?thesis
      unfolding fs_get_object_def opened Let_def using assms
      by (simp add: fs_close_handle_def del: min_less_iff_conj split: option.splits)
  qed
qed

text \<open>
  Claim C4. A data phase of a \<^verbatim>\<open>GetObject\<close> transfer in progress: the stream is open for
  the requested handle, \<^verbatim>\<open>current_file_size\<close> is the length of the file, and the transport
  reports at least the container header and no more than header plus file as transferred.
  Then the handler returns (the read loop ends), it reads at file offset
  \<^verbatim>\<open>total_xferred_bytes - sizeof(mtp_container_header_t)\<close>, it places exactly
  \<open>min (size - offset) payload_bytes\<close> bytes, the bytes of the file from that offset, in the
  reply, and the stream is closed and the slot released (\<^verbatim>\<open>current_file\<close> null,
  \<^verbatim>\<open>current_handle\<close> invalid) exactly when offset plus chunk length reaches the file
  size; otherwise the stream stays open for the same handle.
\<close>

theorem C4_get_object_data_phase:
  fixes s :: mtp_state and f :: FILE and total_xferred_bytes payload_bytes :: u32
  defines "content \<equiv> file_content (littlefs s) f"
    and "offset \<equiv> unat total_xferred_bytes - unat mtp_container_header_size"
  defines "chunk \<equiv> min (length content - offset) (unat payload_bytes)"
  assumes stream: "current_file s = Some f" and slot: "current_handle s = obj_handle"
    and size_eq: "current_file_size s = of_nat (length content)" and small: "length content < 2 ^ 32"
    and hdr: "unat mtp_container_header_size \<le> unat total_xferred_bytes"
    and within: "offset \<le> length content"
  shows "\<exists>s'. fs_get_object obj_handle MTP_PHASE_DATA total_xferred_bytes payload_bytes bufsize s
                 = Returns (Ret_0,
                            (if chunk = 0 then []
                             else [Data_Send_Bytes (take chunk (drop offset content))]), s')
             \<and> length (take chunk (drop offset content)) = chunk
             \<and> (current_file s' = None \<and> current_handle s' = FS_INVALID_HANDLE
                  \<longleftrightarrow> offset + chunk = length content)
             \<and> (offset + chunk < length content
                  \<longrightarrow> current_file s' \<noteq> None \<and> current_handle s' = obj_handle)"
proof -
  define off where "off = total_xferred_bytes - mtp_container_header_size"
  define xact where "xact = min (current_file_size s - off) payload_bytes"
  note body = get_object_data_open [OF stream slot, of total_xferred_bytes payload_bytes bufsize,
      folded off_def, folded xact_def]
  have u_size: "unat (current_file_size s) = length content"
    using size_eq small by (simp add: unat_of_nat)
  have u_off: "unat off = offset"
    using hdr by (simp add: off_def offset_def unat_sub word_le_nat_alt)
  have off_le: "off \<le> current_file_size s"
    using within u_off u_size by (simp add: word_le_nat_alt)
  have u_rest: "unat (current_file_size s - off) = length content - offset"
    using off_le u_off u_size by (simp add: unat_sub)
  have u_xact: "unat xact = chunk"
    using u_rest by (simp add: xact_def chunk_def min_def word_le_nat_alt)
  have chunk_le: "offset + chunk \<le> length content"
    using within by (simp add: chunk_def)
  have u_sum: "unat (off + xact) = offset + chunk"
    using u_off u_xact chunk_le small by (simp add: unat_word_ariths)
  have reach: "off + xact \<ge> current_file_size s \<longleftrightarrow> offset + chunk = length content"
    using u_sum u_size chunk_le by (auto simp add: word_le_nat_alt)
  have len: "length (take chunk (drop offset content)) = chunk"
    using chunk_le by simp
  have zero: "xact = 0 \<longleftrightarrow> chunk = 0"
    using u_xact by (metis unat_eq_0)
  show ?thesis
  proof (cases "chunk = 0")
    case True
    show ?thesis
    proof (cases "offset + chunk = length content")
      case same: True
      have "fs_get_object obj_handle MTP_PHASE_DATA total_xferred_bytes payload_bytes bufsize s
              = Returns (Ret_0, [], s\<lparr>current_handle := FS_INVALID_HANDLE, current_file := None\<rparr>)"
        using True same zero reach by (simp add: body)
      with True same len show ?thesis by simp
    next
      case less: False
      have "fs_get_object obj_handle MTP_PHASE_DATA total_xferred_bytes payload_bytes bufsize s
              = Returns (Ret_0, [], s)"
        using True less zero reach by (simp add: body)
      with True less len stream slot show ?thesis by simp
    qed
  next
    case False
    let ?f' = "f\<lparr>f_pos := offset + chunk\<rparr>"
    have "f_pos (f\<lparr>f_pos := unat off\<rparr>) + unat xact
            \<le> length (file_content (littlefs s) (f\<lparr>f_pos := unat off\<rparr>))"
      using chunk_le u_off u_xact by (simp add: content_def)
    from read_loop_enough [OF this, of "[]"] False zero
    have loop: "read_loop (littlefs s) (f\<lparr>f_pos := unat off\<rparr>) xact []
            = Some (take chunk (drop offset content), ?f')"
      using u_off u_xact by (simp add: content_def)
    show ?thesis
    proof (cases "offset + chunk = length content")
      case same: True
      have "fs_get_object obj_handle MTP_PHASE_DATA total_xferred_bytes payload_bytes bufsize s
              = Returns (Ret_0, [Data_Send_Bytes (take chunk (drop offset content))],
                         s\<lparr>current_file := Some ?f', current_handle := FS_INVALID_HANDLE,
                           current_file := None\<rparr>)"
        using False same zero reach by (simp add: body loop)
      with False same len show ?thesis by simp
    next
      case less: False
      have "fs_get_object obj_handle MTP_PHASE_DATA total_xferred_bytes payload_bytes bufsize s
              = Returns (Ret_0, [Data_Send_Bytes (take chunk (drop offset content))],
                         s\<lparr>current_file := Some ?f'\<rparr>)"
        using False less zero reach by (simp add: body loop)
      with False less len slot show ?thesis by simp
    qed
  qed
qed

theorem C4_get_object_data_phase_witness:
  "current_file (state_after [Open_Session, Get_Object 1 MTP_PHASE_COMMAND 0 500] fs_big_file)
     = Some \<lparr>f_path = ''/littlefs/big'', f_mode = ''r'', f_pos = 512\<rparr>
   \<and> current_handle (state_after [Open_Session, Get_Object 1 MTP_PHASE_COMMAND 0 500] fs_big_file) = 1
   \<and> current_file_size (state_after [Open_Session, Get_Object 1 MTP_PHASE_COMMAND 0 500] fs_big_file)
       = 600
   \<and> (\<exists>s'. fs_get_object 1 MTP_PHASE_DATA 512 512 CFG_TUD_MTP_EP_BUFSIZE
               (state_after [Open_Session, Get_Object 1 MTP_PHASE_COMMAND 0 500] fs_big_file)
             = Returns (Ret_0, [Data_Send_Bytes (replicate 100 0x55)], s')
           \<and> current_file s' = None \<and> current_handle s' = FS_INVALID_HANDLE)
   \<and> (\<exists>s'. fs_get_object 1 MTP_PHASE_DATA 512 64 CFG_TUD_MTP_EP_BUFSIZE
               (state_after [Open_Session, Get_Object 1 MTP_PHASE_COMMAND 0 500] fs_big_file)
             = Returns (Ret_0, [Data_Send_Bytes (replicate 64 0x55)], s')
           \<and> current_file s' \<noteq> None \<and> current_handle s' = 1)"
proof -
  let ?s = "state_after [Open_Session, Get_Object 1 MTP_PHASE_COMMAND 0 500] fs_big_file"
  let ?f = "\<lparr>f_path = ''/littlefs/big'', f_mode = ''r'', f_pos = 512\<rparr>"
  have stream: "current_file ?s = Some ?f" by code_simp
  have slot: "current_handle ?s = 1" by code_simp
  have content: "file_content (littlefs ?s) ?f = replicate 600 0x55" by code_simp
  have size_eq: "current_file_size ?s = of_nat (length (file_content (littlefs ?s) ?f))"
    unfolding content by code_simp
  have size': "current_file_size ?s = 600" by code_simp
  have hdr: "unat mtp_container_header_size \<le> unat (512 :: u32)"
    by (simp add: mtp_container_header_size_def)
  have off: "unat (512 :: u32) - unat mtp_container_header_size = 500"
    by (simp add: mtp_container_header_size_def)
  from C4_get_object_data_phase [OF stream slot size_eq _ hdr, of 512 CFG_TUD_MTP_EP_BUFSIZE]
  obtain s' where last:
    "fs_get_object 1 MTP_PHASE_DATA 512 512 CFG_TUD_MTP_EP_BUFSIZE ?s
       = Returns (Ret_0, [Data_Send_Bytes (replicate 100 0x55)], s')"
    "current_file s' = None \<and> current_handle s' = FS_INVALID_HANDLE"
    unfolding content off by (auto simp add: min_def)
  from C4_get_object_data_phase [OF stream slot size_eq _ hdr, of 64 CFG_TUD_MTP_EP_BUFSIZE]
  obtain s'' where more:
    "fs_get_object 1 MTP_PHASE_DATA 512 64 CFG_TUD_MTP_EP_BUFSIZE ?s
       = Returns (Ret_0, [Data_Send_Bytes (replicate 64 0x55)], s'')"
    "current_file s'' \<noteq> None \<and> current_handle s'' = 1"
    unfolding content off by (auto simp add: min_def)
  from stream slot size' last more show ?thesis by blast
qed

subsection \<open>Closing and reopening a session\<close>

text \<open>
  Claim C1 (closing the session invalidates every handle; the next open rebuilds the table
  from the filesystem) on the code. A session is opened on one file \<^verbatim>\<open>a\<close>, the file \<^verbatim>\<open>b\<close> is
  created (it gets handle 3 and the free slot 0), the session is closed and reopened. The
  rebuild writes the slots from 1 on and clears none: handle 3, issued before the close,
  still resolves to \<^verbatim>\<open>/littlefs/b\<close>, and the table has three live entries for the two
  objects of the listing.
\<close>

theorem C1_stale_handle_after_reopen:
  "run_requests
      [Open_Session, Send_Object_Info SUPPORTED_STORAGE_ID MTP_PHASE_DATA oi_file_b,
       Close_Session, Open_Session] (boot_state fs_one_file)
     = Returns (state_after
         [Open_Session, Send_Object_Info SUPPORTED_STORAGE_ID MTP_PHASE_DATA oi_file_b,
          Close_Session, Open_Session] fs_one_file)
   \<and> fs_path_from_handle
       (handle_table (state_after
          [Open_Session, Send_Object_Info SUPPORTED_STORAGE_ID MTP_PHASE_DATA oi_file_b] fs_one_file))
       3 200 = Returns (Some ''/littlefs/b'')
   \<and> fs_path_from_handle
       (handle_table (state_after
          [Open_Session, Send_Object_Info SUPPORTED_STORAGE_ID MTP_PHASE_DATA oi_file_b,
           Close_Session, Open_Session] fs_one_file))
       3 200 = Returns (Some ''/littlefs/b'')
   \<and> length (fs_readdir (littlefs (state_after
          [Open_Session, Send_Object_Info SUPPORTED_STORAGE_ID MTP_PHASE_DATA oi_file_b,
           Close_Session, Open_Session] fs_one_file)) ''/littlefs'') = 2
   \<and> live_count (handle_table (state_after
          [Open_Session, Send_Object_Info SUPPORTED_STORAGE_ID MTP_PHASE_DATA oi_file_b,
           Close_Session, Open_Session] fs_one_file)) = 3"
  by code_simp

end
